theory Spec2Isabelle
  imports Complex_Main "HOL-Library.Sublist"
begin

section \<open>Python values used by the bot\<close>

text \<open>
  A Python \<^verbatim>\<open>str\<close> is modelled as a \<^typ>\<open>string\<close> holding its UTF-8 encoding, so the
  two dashes of the brand voice that lie outside ASCII are three bytes each.  UTF-8 is
  self-synchronising: one well-formed text occurs inside another as a run of code points
  exactly when its encoding occurs there as a run of bytes.
\<close>

definition en_dash :: string where
  "en_dash = [CHR 0xE2, CHR 0x80, CHR 0x93]"

definition em_dash :: string where
  "em_dash = [CHR 0xE2, CHR 0x80, CHR 0x94]"

text \<open>\<^verbatim>\<open>sep.join(xs)\<close> and the truthiness test of \<^verbatim>\<open>s or default\<close> on strings.\<close>

fun join :: "string \<Rightarrow> string list \<Rightarrow> string" where
  "join sep [] = []"
| "join sep [x] = x"
| "join sep (x # y # ys) = x @ sep @ join sep (y # ys)"

definition py_or :: "string \<Rightarrow> string \<Rightarrow> string" where
  "py_or s d = (if s = [] then d else s)"

text \<open>
  \<^verbatim>\<open>str.strip()\<close> removes the characters for which \<^verbatim>\<open>str.isspace()\<close> holds from both
  ends.  \<open>WHITESPACE\<close> lists their UTF-8 encodings: U+0009..U+000D, U+001C..U+0020,
  U+0085, U+00A0, U+1680, U+2000..U+200A, U+2028, U+2029, U+202F, U+205F and U+3000.
\<close>

definition WHITESPACE :: "string list" where
  "WHITESPACE =
    [[CHR 0x09], [CHR 0x0A], [CHR 0x0B], [CHR 0x0C], [CHR 0x0D],
     [CHR 0x1C], [CHR 0x1D], [CHR 0x1E], [CHR 0x1F], [CHR 0x20],
     [CHR 0xC2, CHR 0x85], [CHR 0xC2, CHR 0xA0], [CHR 0xE1, CHR 0x9A, CHR 0x80],
     [CHR 0xE2, CHR 0x80, CHR 0x80], [CHR 0xE2, CHR 0x80, CHR 0x81],
     [CHR 0xE2, CHR 0x80, CHR 0x82], [CHR 0xE2, CHR 0x80, CHR 0x83],
     [CHR 0xE2, CHR 0x80, CHR 0x84], [CHR 0xE2, CHR 0x80, CHR 0x85],
     [CHR 0xE2, CHR 0x80, CHR 0x86], [CHR 0xE2, CHR 0x80, CHR 0x87],
     [CHR 0xE2, CHR 0x80, CHR 0x88], [CHR 0xE2, CHR 0x80, CHR 0x89],
     [CHR 0xE2, CHR 0x80, CHR 0x8A], [CHR 0xE2, CHR 0x80, CHR 0xA8],
     [CHR 0xE2, CHR 0x80, CHR 0xA9], [CHR 0xE2, CHR 0x80, CHR 0xAF],
     [CHR 0xE2, CHR 0x81, CHR 0x9F], [CHR 0xE3, CHR 0x80, CHR 0x80]]"

definition space_len :: "string list \<Rightarrow> string \<Rightarrow> nat" where
  "space_len ws s = (case find (\<lambda>w. prefix w s) ws of None \<Rightarrow> 0 | Some w \<Rightarrow> length w)"

fun strip_front :: "string list \<Rightarrow> string \<Rightarrow> string" where
  "strip_front ws [] = []"
| "strip_front ws (c # cs) =
     (if space_len ws (c # cs) = 0 then c # cs
      else strip_front ws (drop (space_len ws (c # cs) - 1) cs))"

definition lstrip :: "string \<Rightarrow> string" where
  "lstrip s = strip_front WHITESPACE s"

definition rstrip :: "string \<Rightarrow> string" where
  "rstrip s = rev (strip_front (map rev WHITESPACE) (rev s))"

definition strip :: "string \<Rightarrow> string" where
  "strip s = rstrip (lstrip s)"

text \<open>
  The exceptions the code can meet.  Those of the transport (\<^verbatim>\<open>urllib\<close>, \<^verbatim>\<open>http.client\<close>,
  the socket, TLS) are kept apart in a type of their own: \<open>HTTPError\<close> carries the status
  of a response outside 2xx.  \<open>PillowError c\<close> is an exception of a class \<open>c\<close> not listed
  here that a decoder of the image library raised.

  The module defines no exception class and has no \<^verbatim>\<open>raise\<close> statement: whatever a library
  call raises leaves the function unchanged.  The specification speaks of a
  \<^verbatim>\<open>GenerationFailure\<close> carrying a kind; the last constructor stands for it, so that a
  theorem can say where it is raised.  No equation of this theory produces it.
\<close>

datatype net_error =
  URLError | HTTPError nat | TimeoutError | ConnectionError | HTTPException | SSLError

datatype failure_kind = Network | Timeout | UpstreamError | MalformedResponse

datatype py_exception =
    Net net_error
  | UnicodeDecodeError
  | JSONDecodeError
  | RecursionError
  | KeyError
  | IndexError
  | TypeError
  | AttributeError
  | ValueError
  | BinasciiError
  | UnidentifiedImageError
  | DecompressionBombError
  | OSError
  | SyntaxError
  | PillowError string
  | ZeroDivisionError
  | RequestException
  | GenerationFailure failure_kind

text \<open>
  What \<^verbatim>\<open>json.loads\<close> returns.  A number keeps its literal: the code never computes with
  one, and an \<^verbatim>\<open>int\<close> and a \<^verbatim>\<open>float\<close> answer subscription and attribute access alike.
  A \<open>JDict\<close> holds the bindings of the parsed object, looked up from the front.
\<close>

datatype json =
    JNull
  | JBool bool
  | JNumber string
  | JStr string
  | JList "json list"
  | JDict "(string \<times> json) list"

datatype key = KStr string | KInt int

text \<open>\<^verbatim>\<open>xs[i]\<close> on a sequence: a negative index counts from the end.\<close>

definition py_index :: "'a list \<Rightarrow> int \<Rightarrow> 'a option" where
  "py_index xs i =
     (if 0 \<le> i \<and> i < int (length xs) then Some (xs ! nat i)
      else if i < 0 \<and> - int (length xs) \<le> i then Some (xs ! nat (int (length xs) + i))
      else None)"

text \<open>The code points of a string: a lead byte with the continuation bytes after it.\<close>

definition is_cont :: "char \<Rightarrow> bool" where
  "is_cont c = ((of_char c :: nat) div 64 = 2)"

function utf8_chars :: "string \<Rightarrow> string list" where
  "utf8_chars [] = []"
| "utf8_chars (c # cs) = (c # takeWhile is_cont cs) # utf8_chars (dropWhile is_cont cs)"
  by pat_completeness auto
termination
  by (relation "measure length") (auto simp: le_imp_less_Suc length_dropWhile_le)

text \<open>
  \<^verbatim>\<open>obj[k]\<close>: a missing key of a dict is a \<open>KeyError\<close> (its keys are strings, so an integer
  is never among them), an index past a list or string an \<open>IndexError\<close>, a string key on
  a list or string and any subscript of a number, boolean or \<^verbatim>\<open>None\<close> a \<open>TypeError\<close>.
\<close>

fun getitem :: "json \<Rightarrow> key \<Rightarrow> py_exception + json" where
  "getitem (JDict d) (KStr k) = (case map_of d k of None \<Rightarrow> Inl KeyError | Some v \<Rightarrow> Inr v)"
| "getitem (JDict d) (KInt i) = Inl KeyError"
| "getitem (JList xs) (KInt i) = (case py_index xs i of None \<Rightarrow> Inl IndexError | Some v \<Rightarrow> Inr v)"
| "getitem (JList xs) (KStr k) = Inl TypeError"
| "getitem (JStr s) (KInt i) =
     (case py_index (utf8_chars s) i of None \<Rightarrow> Inl IndexError | Some c \<Rightarrow> Inr (JStr c))"
| "getitem (JStr s) (KStr k) = Inl TypeError"
| "getitem JNull k = Inl TypeError"
| "getitem (JBool b) k = Inl TypeError"
| "getitem (JNumber n) k = Inl TypeError"

text \<open>\<^verbatim>\<open>obj.strip()\<close>: only a string has the method.\<close>

fun strip_method :: "json \<Rightarrow> py_exception + string" where
  "strip_method (JStr s) = Inr (strip s)"
| "strip_method j = Inl AttributeError"

text \<open>Sequencing of steps that may raise: the first exception ends the computation.\<close>

definition and_then :: "'e + 'a \<Rightarrow> ('a \<Rightarrow> 'e + 'b) \<Rightarrow> 'e + 'b" where
  "and_then r f = (case r of Inl e \<Rightarrow> Inl e | Inr x \<Rightarrow> f x)"

section \<open>Images\<close>

text \<open>
  A Pillow image: its size, its mode and its raster.  The raster is kept as the term of
  library calls that produced it, so that a theorem can say which mark was drawn where.
  What \<^verbatim>\<open>Image.open\<close> returns is a file not yet read, the raster \<open>Decoded raw\<close>: the first
  call that needs the pixels (\<^verbatim>\<open>convert\<close>, \<^verbatim>\<open>copy\<close>) reads the file and raises where the
  data are truncated.  Every other raster is in memory.
  The position of a drawn text is a pair of rationals: \<^verbatim>\<open>cx - tw/2\<close> is a half-integer,
  which binary floating point holds exactly.
\<close>

datatype raster =
    Decoded string
  | Converted string raster
  | Resized "nat \<times> nat" raster
  | Composited raster raster "int \<times> int"
  | EllipseOn raster "int \<times> int \<times> int \<times> int" string
  | TextOn raster "rat \<times> rat" string string

record image =
  width :: nat
  height :: nat
  mode :: string
  pixels :: raster

fun unread :: "raster \<Rightarrow> bool" where
  "unread (Decoded raw) = True"
| "unread (Converted m px) = False"
| "unread (Resized sz px) = False"
| "unread (Composited px ov dest) = False"
| "unread (EllipseOn px box fill) = False"
| "unread (TextOn px pos t fill) = False"

text \<open>
  Objects live in a store; a reference is an index into it.  The drawing calls update the
  object they are given in place.
\<close>

type_synonym heap = "image list"
type_synonym ref = nat

section \<open>Floating point\<close>

text \<open>
  A non-negative binary64 value is a pair \<open>(m, e)\<close> standing for \<open>m * 2 ^ e\<close> with
  \<open>m \<le> 2 ^ 53\<close>.  \<open>round_double\<close> rounds an exact dyadic value to 53 significant bits,
  ties to even, as every IEEE operation does; the exponent range is not modelled (the
  values here are pixel counts).  \<open>truediv\<close> is Python's \<^verbatim>\<open>a / b\<close> on integers, which is
  correctly rounded: the quotient is computed to at least 54 bits and the remainder is
  kept as a sticky bit.
\<close>

type_synonym double = "nat \<times> int"

fun bitlen :: "nat \<Rightarrow> nat" where
  "bitlen n = (if n = 0 then 0 else Suc (bitlen (n div 2)))"

definition round_double :: "nat \<Rightarrow> int \<Rightarrow> double" where
  "round_double m e =
     (let s = bitlen m - 53 in
      if s = 0 then (m, e)
      else
        let q = m div 2 ^ s; r = m mod 2 ^ s; half = 2 ^ (s - 1)
        in (if half < r \<or> (r = half \<and> odd q) then q + 1 else q, e + int s))"

definition float_of_nat :: "nat \<Rightarrow> double" where
  "float_of_nat n = round_double n 0"

definition float_mul :: "double \<Rightarrow> double \<Rightarrow> double" where
  "float_mul x y = round_double (fst x * fst y) (snd x + snd y)"

definition truediv :: "nat \<Rightarrow> nat \<Rightarrow> double" where
  "truediv a b =
     (let k = (54 + bitlen b) - bitlen a;
          n = (a * 2 ^ k) div b;
          sticky = (if (a * 2 ^ k) mod b = 0 then 0 else 1)
      in round_double (2 * n + sticky) (- int k - 1))"

definition int_of_float :: "double \<Rightarrow> nat" where
  "int_of_float x = (if 0 \<le> snd x then fst x * 2 ^ nat (snd x) else fst x div 2 ^ nat (- snd x))"

text \<open>The literals \<^verbatim>\<open>0.16\<close> = 0x1.47ae147ae147bp-3 and \<^verbatim>\<open>0.12\<close> = 0x1.eb851eb851eb8p-4.\<close>

definition lit_0_16 :: double where
  "lit_0_16 = (5764607523034235, - 55)"

definition lit_0_12 :: double where
  "lit_0_12 = (8646911284551352, - 56)"

section \<open>The world outside the program\<close>

text \<open>
  The configuration read from the process environment when the module is loaded, and the
  behaviour of everything the module calls but does not define: the HTTP transport, the
  decoders of the standard library and the image library.  Each is a parameter, so a
  theorem holds for every behaviour of the services and of the libraries.
  \<^item> \<open>urlopen\<close>: the body of a 2xx response read to its end, or the transport's exception;
  \<^item> \<open>utf8_decode\<close>: \<open>None\<close> where the bytes are not UTF-8;
  \<^item> \<open>json_loads\<close>: the parsed value, or why there is none: the text is not JSON, or it is
    nested deeper than the interpreter recurses;
  \<^item> \<open>b64decode\<close>: the bytes an ASCII string decodes to, \<open>None\<close> where it is not base64;
  \<^item> \<open>Image_open\<close>: the image found in the bytes, or why there is none;
  \<^item> \<open>load_fails\<close>: why the data of an opened file cannot be read, \<open>None\<close> where they can;
  \<^item> \<open>requests_get\<close>: the content of the response for the logo, of any status;
  \<^item> \<open>convert_fails\<close>, \<open>resize_fails\<close>, \<open>composite_fails\<close>, \<open>save_fails\<close>: where Pillow refuses
    a call (a conversion between two modes it does not have, an empty size, a wrong mode,
    a destination outside the image);
  \<^item> \<open>color_ok\<close>: the colour strings \<^verbatim>\<open>ImageColor\<close> accepts;
  \<^item> \<open>ink_refused\<close>: for an image and an accepted colour, why the colour cannot be made an
    ink for the image, \<open>None\<close> where it can;
  \<^item> \<open>textsize\<close>: the size of a text in the default font, \<open>None\<close> where the installed
    Pillow has no \<^verbatim>\<open>ImageDraw.textsize\<close>.

  Why \<^verbatim>\<open>json.loads\<close> raises, why a decoder of the image library does (no format
  recognises the bytes, the picture is larger than the library's limit of pixels, the
  file is truncated, a chunk of it is broken, or another exception of the decoder, named
  by its class), and why a colour is no ink for an image (its palette has no free entry,
  or the drawing core does not take the colour for the mode, as for mode \<^verbatim>\<open>PA\<close>):
\<close>

datatype json_error = NotJSON | TooDeep

datatype decode_error = NotAnImage | TooManyPixels | Truncated | Broken | OtherDecodeError string

datatype ink_error = PaletteFull | WrongInk

fun json_exception :: "json_error \<Rightarrow> py_exception" where
  "json_exception NotJSON = JSONDecodeError"
| "json_exception TooDeep = RecursionError"

fun decode_exception :: "decode_error \<Rightarrow> py_exception" where
  "decode_exception NotAnImage = UnidentifiedImageError"
| "decode_exception TooManyPixels = DecompressionBombError"
| "decode_exception Truncated = OSError"
| "decode_exception Broken = SyntaxError"
| "decode_exception (OtherDecodeError c) = PillowError c"

fun ink_exception :: "ink_error \<Rightarrow> py_exception" where
  "ink_exception PaletteFull = ValueError"
| "ink_exception WrongInk = TypeError"

record request =
  url :: string
  payload :: json
  bearer :: string

record env =
  OPENAI_API_KEY :: string
  BRAND_PRIMARY :: string
  BRAND_CREAM :: string
  LOGO_URL :: string
  urlopen :: "request \<Rightarrow> nat \<Rightarrow> net_error + string"
  utf8_decode :: "string \<Rightarrow> string option"
  json_loads :: "string \<Rightarrow> json_error + json"
  b64decode :: "string \<Rightarrow> string option"
  Image_open :: "string \<Rightarrow> decode_error + image"
  requests_get :: "string \<Rightarrow> nat \<Rightarrow> string option"
  load_fails :: "image \<Rightarrow> decode_error option"
  convert_fails :: "string \<Rightarrow> string \<Rightarrow> bool"
  resize_fails :: "image \<Rightarrow> nat \<times> nat \<Rightarrow> bool"
  composite_fails :: "image \<Rightarrow> image \<Rightarrow> int \<times> int \<Rightarrow> bool"
  save_fails :: "image \<Rightarrow> bool"
  color_ok :: "string \<Rightarrow> bool"
  ink_refused :: "image \<Rightarrow> string \<Rightarrow> ink_error option"
  textsize :: "string \<Rightarrow> (nat \<times> nat) option"

section \<open>The OpenAI clients\<close>

text \<open>
  Both clients open the request and parse the body the same way:
  \<^verbatim>\<open>with urllib.request.urlopen(req, timeout=t) as resp:
      out = json.loads(resp.read().decode("utf-8"))\<close>
\<close>

definition fetch_json :: "env \<Rightarrow> request \<Rightarrow> nat \<Rightarrow> py_exception + json" where
  "fetch_json env req timeout =
     (case urlopen env req timeout of
        Inl n \<Rightarrow> Inl (Net n)
      | Inr body \<Rightarrow>
          (case utf8_decode env body of
             None \<Rightarrow> Inl UnicodeDecodeError
           | Some txt \<Rightarrow>
               (case json_loads env txt of
                  Inl why \<Rightarrow> Inl (json_exception why)
                | Inr out \<Rightarrow> Inr out)))"

definition chat_request :: "env \<Rightarrow> string \<Rightarrow> string \<Rightarrow> request" where
  "chat_request env prompt model =
     \<lparr>url = ''https://api.openai.com/v1/chat/completions'',
      payload = JDict
        [(''model'', JStr model),
         (''messages'', JList [JDict [(''role'', JStr ''user''), (''content'', JStr prompt)]]),
         (''temperature'', JNumber ''0.7'')],
      bearer = OPENAI_API_KEY env\<rparr>"

definition openai_chat :: "env \<Rightarrow> string \<Rightarrow> string \<Rightarrow> py_exception + string" where
  "openai_chat env prompt model =
     and_then (fetch_json env (chat_request env prompt model) 60) (\<lambda>out.
     and_then (getitem out (KStr ''choices'')) (\<lambda>choices.
     and_then (getitem choices (KInt 0)) (\<lambda>choice.
     and_then (getitem choice (KStr ''message'')) (\<lambda>message.
     and_then (getitem message (KStr ''content'')) strip_method))))"

definition image_request :: "env \<Rightarrow> string \<Rightarrow> string \<Rightarrow> request" where
  "image_request env prompt sz =
     \<lparr>url = ''https://api.openai.com/v1/images/generations'',
      payload = JDict
        [(''model'', JStr ''gpt-image-1''), (''prompt'', JStr prompt), (''size'', JStr sz)],
      bearer = OPENAI_API_KEY env\<rparr>"

text \<open>
  \<^verbatim>\<open>base64.b64decode\<close> takes a string; any other value is a \<open>TypeError\<close>.  A string is
  encoded as ASCII first, which is a plain \<open>ValueError\<close> when a character is outside
  ASCII; bytes that are not base64 are a \<^verbatim>\<open>binascii.Error\<close>.
\<close>

definition is_ascii :: "string \<Rightarrow> bool" where
  "is_ascii s = list_all (\<lambda>c. (of_char c :: nat) < 128) s"

fun b64decode_json :: "env \<Rightarrow> json \<Rightarrow> py_exception + string" where
  "b64decode_json env (JStr s) =
     (if \<not> is_ascii s then Inl ValueError
      else case b64decode env s of None \<Rightarrow> Inl BinasciiError | Some raw \<Rightarrow> Inr raw)"
| "b64decode_json env j = Inl TypeError"

definition open_image :: "env \<Rightarrow> string \<Rightarrow> py_exception + image" where
  "open_image env raw = (case Image_open env raw of Inl why \<Rightarrow> Inl (decode_exception why) | Inr img \<Rightarrow> Inr img)"

text \<open>
  \<^verbatim>\<open>img.load()\<close>, which \<^verbatim>\<open>convert\<close> and \<^verbatim>\<open>copy\<close> call first: only a file not yet read can
  fail to load.
\<close>

definition load_error :: "env \<Rightarrow> image \<Rightarrow> decode_error option" where
  "load_error env img = (if unread (pixels img) then load_fails env img else None)"

text \<open>\<^verbatim>\<open>img.convert(m)\<close> loads the file's data and returns a new image of mode \<open>m\<close>.\<close>

definition convert :: "env \<Rightarrow> string \<Rightarrow> image \<Rightarrow> py_exception + image" where
  "convert env m img =
     (case load_error env img of
        Some why \<Rightarrow> Inl (decode_exception why)
      | None \<Rightarrow>
          if convert_fails env (mode img) m then Inl ValueError
          else Inr (img\<lparr>mode := m, pixels := Converted m (pixels img)\<rparr>))"

text \<open>\<^verbatim>\<open>img.copy()\<close> loads the data and allocates a new object.\<close>

definition img_copy :: "env \<Rightarrow> heap \<Rightarrow> ref \<Rightarrow> py_exception + heap \<times> ref" where
  "img_copy env h r =
     (case load_error env (h ! r) of
        Some why \<Rightarrow> Inl (decode_exception why)
      | None \<Rightarrow> Inr (h @ [h ! r], length h))"

definition openai_image :: "env \<Rightarrow> string \<Rightarrow> string \<Rightarrow> py_exception + image" where
  "openai_image env prompt sz =
     and_then (fetch_json env (image_request env prompt sz) 120) (\<lambda>out.
     and_then (getitem out (KStr ''data'')) (\<lambda>items.
     and_then (getitem items (KInt 0)) (\<lambda>item.
     and_then (getitem item (KStr ''b64_json'')) (\<lambda>b64.
     and_then (b64decode_json env b64) (\<lambda>raw.
     and_then (open_image env raw) (convert env ''RGBA''))))))"

section \<open>Brand helpers\<close>

definition VOICE :: string where
  "VOICE =
     ''You are the voice of 'plaintext.daily' '' @ em_dash @
     '' internet field notes, practical > perfect. '' @
     ''Tone: minimal, direct, calm, anti-hype. One idea per post. Keep 12'' @ en_dash @
     ''18 words if possible.''"

definition HASHTAGS :: string where
  "HASHTAGS =
     ''#plaintextdaily #internetfieldnotes #practicaloverperfect #makerhabits #shipdaily #minimaldesign''"

definition STYLE_PROMPT :: string where
  "STYLE_PROMPT =
     ''Minimal, type-forward square card. Warm cream background (#F4EFE2), charcoal text (#2F3435). '' @
     ''Use whitespace, subtle grain, tiny geometric accent (dot or line). Optional small 'pd' roundel bottom-right. '' @
     ''No photos, no gradients.''"

text \<open>The calls of Pillow the compositor makes, each on success and on refusal.\<close>

definition resize :: "env \<Rightarrow> image \<Rightarrow> nat \<times> nat \<Rightarrow> py_exception + image" where
  "resize env img sz =
     (if resize_fails env img sz then Inl ValueError
      else Inr (img\<lparr>width := fst sz, height := snd sz, pixels := Resized sz (pixels img)\<rparr>))"

definition alpha_composite :: "env \<Rightarrow> heap \<Rightarrow> ref \<Rightarrow> image \<Rightarrow> int \<times> int \<Rightarrow> py_exception + heap" where
  "alpha_composite env h r overlay dest =
     (if composite_fails env (h ! r) overlay dest then Inl ValueError
      else Inr (h[r := (h ! r)\<lparr>pixels := Composited (pixels (h ! r)) (pixels overlay) dest\<rparr>]))"

text \<open>
  \<^verbatim>\<open>draw.ellipse(box, fill=colour)\<close> and \<^verbatim>\<open>draw.text(pos, t, fill=colour)\<close> turn the colour
  into an ink first: a colour the library does not know is a \<open>ValueError\<close>, and so is one
  for which the palette of the image has no free entry; a colour the drawing core does
  not take for the mode of the image is a \<open>TypeError\<close>.  A box whose second corner lies
  before its first is a \<open>ValueError\<close>.
\<close>

definition getink :: "env \<Rightarrow> image \<Rightarrow> string \<Rightarrow> py_exception option" where
  "getink env img fill =
     (if \<not> color_ok env fill then Some ValueError
      else map_option ink_exception (ink_refused env img fill))"

definition ellipse :: "env \<Rightarrow> heap \<Rightarrow> ref \<Rightarrow> int \<times> int \<times> int \<times> int \<Rightarrow> string \<Rightarrow> py_exception + heap" where
  "ellipse env h r box fill =
     (case box of (x0, y0, x1, y1) \<Rightarrow>
        (case getink env (h ! r) fill of
           Some e \<Rightarrow> Inl e
         | None \<Rightarrow>
             if x1 < x0 \<or> y1 < y0 then Inl ValueError
             else Inr (h[r := (h ! r)\<lparr>pixels := EllipseOn (pixels (h ! r)) box fill\<rparr>])))"

text \<open>
  The guarded block that writes the glyph:
  \<^verbatim>\<open>font = ImageFont.load_default()
  tw, th = draw.textsize("pd", font=font)
  draw.text((cx - tw/2, cy - th/2), "pd", fill=BRAND_CREAM, font=font)\<close>
\<close>

definition draw_pd :: "env \<Rightarrow> heap \<Rightarrow> ref \<Rightarrow> int \<Rightarrow> int \<Rightarrow> py_exception + heap" where
  "draw_pd env h r cx cy =
     (case textsize env ''pd'' of
        None \<Rightarrow> Inl AttributeError
      | Some (tw, th) \<Rightarrow>
          (case getink env (h ! r) (BRAND_CREAM env) of
             Some e \<Rightarrow> Inl e
           | None \<Rightarrow>
               Inr (h[r := (h ! r)\<lparr>pixels :=
                 TextOn (pixels (h ! r)) (of_int cx - of_nat tw / 2, of_int cy - of_nat th / 2)
                   ''pd'' (BRAND_CREAM env)\<rparr>])))"

text \<open>The body of the \<^verbatim>\<open>try\<close> of \<^verbatim>\<open>add_logo_or_mark\<close>, run on the copy \<open>img\<close>.\<close>

definition logo_width :: "image \<Rightarrow> nat" where
  "logo_width img = int_of_float (float_mul (float_of_nat (width img)) lit_0_16)"

definition logo_height :: "nat \<Rightarrow> image \<Rightarrow> nat" where
  "logo_height w logo = int_of_float (float_mul (float_of_nat (height logo)) (truediv w (width logo)))"

definition paste_logo :: "env \<Rightarrow> heap \<Rightarrow> ref \<Rightarrow> py_exception + heap" where
  "paste_logo env h img =
     (case requests_get env (LOGO_URL env) 10 of
        None \<Rightarrow> Inl RequestException
      | Some content \<Rightarrow>
          and_then (open_image env content) (\<lambda>opened.
          and_then (convert env ''RGBA'' opened) (\<lambda>logo.
            let w = logo_width (h ! img) in
            if width logo = 0 then Inl ZeroDivisionError
            else
              and_then (resize env logo (w, logo_height w logo)) (\<lambda>logo.
                alpha_composite env h img logo
                  (int (width (h ! img)) - int w - 40,
                   int (height (h ! img)) - int (height logo) - 40)))))"

text \<open>The fallback: the disc, and the glyph when it can be drawn.\<close>

definition mark_radius :: "image \<Rightarrow> nat" where
  "mark_radius img = int_of_float (float_mul (float_of_nat (width img)) lit_0_12)"

definition draw_mark :: "env \<Rightarrow> heap \<Rightarrow> ref \<Rightarrow> py_exception + heap" where
  "draw_mark env h img =
     (let r = int (mark_radius (h ! img));
          cx = int (width (h ! img)) - r - 40;
          cy = int (height (h ! img)) - r - 40
      in and_then (ellipse env h img (cx - r, cy - r, cx + r, cy + r) (BRAND_PRIMARY env)) (\<lambda>h1.
           case draw_pd env h1 img cx cy of
             Inl e \<Rightarrow> Inr h1
           | Inr h2 \<Rightarrow> Inr h2))"

definition add_logo_or_mark :: "env \<Rightarrow> heap \<Rightarrow> ref \<Rightarrow> py_exception + heap \<times> ref" where
  "add_logo_or_mark env h img0 =
     and_then (img_copy env h img0) (\<lambda>(h1, img).
        (case (if LOGO_URL env = [] then None
               else (case paste_logo env h1 img of Inl e \<Rightarrow> None | Inr h2 \<Rightarrow> Some h2)) of
           Some h2 \<Rightarrow> Inr (h2, img)
         | None \<Rightarrow> and_then (draw_mark env h1 img) (\<lambda>h3. Inr (h3, img))))"

section \<open>Commands\<close>

text \<open>
  A handler ends by handing one message to Telegram; the model returns that message, or
  the exception that left the handler before anything was sent.  \<open>PNG img\<close> is the buffer
  \<^verbatim>\<open>img.save(buf, format="PNG")\<close> fills: the encoding of \<open>img\<close>.
\<close>

datatype png = PNG image

datatype reply = ReplyText string | ReplyPhoto png string

definition save_png :: "env \<Rightarrow> image \<Rightarrow> py_exception + png" where
  "save_png env img = (if save_fails env img then Inl OSError else Inr (PNG img))"

definition idea_prompt :: string where
  "idea_prompt =
     VOICE @ '' Generate 3 distinct post ideas for today. '' @
     ''Format each as: \<newline>- Hook: <7-10 words>\<newline>  Angle: <one line>.''"

definition idea :: "env \<Rightarrow> string list \<Rightarrow> py_exception + reply" where
  "idea env args = and_then (openai_chat env idea_prompt ''gpt-4o-mini'') (\<lambda>txt. Inr (ReplyText txt))"

definition caption_topic :: "string list \<Rightarrow> string" where
  "caption_topic args = py_or (join '' '' args) ''a tiny workflow habit that compounds''"

definition caption_prompt :: "string list \<Rightarrow> string" where
  "caption_prompt args =
     VOICE @ '' Write one Instagram caption about: '' @ caption_topic args @ ''. '' @
     ''1-2 short sentences. End with: 'practical > perfect'. No emojis.''"

definition caption :: "env \<Rightarrow> string list \<Rightarrow> py_exception + reply" where
  "caption env args =
     and_then (openai_chat env (caption_prompt args) ''gpt-4o-mini'') (\<lambda>txt.
       Inr (ReplyText (txt @ ''\<newline>\<newline>'' @ HASHTAGS)))"

definition post_topic :: "string list \<Rightarrow> string" where
  "post_topic args = py_or (join '' '' args) ''one simple framework to ship daily''"

definition cap_prompt :: "string list \<Rightarrow> string" where
  "cap_prompt args =
     VOICE @ '' Write 1'' @ en_dash @ ''2 short sentences for Instagram about: '' @ post_topic args @ ''. '' @
     ''Make it crisp, zero fluff. End with 'practical > perfect'.''"

definition img_prompt :: "string list \<Rightarrow> string" where
  "img_prompt args =
     STYLE_PROMPT @ '' Content text theme: '' @ post_topic args @
     ''. Render as a clean poster (no photo).''"

text \<open>
  \<^verbatim>\<open>post\<close>: the image \<^verbatim>\<open>openai_image\<close> returns is a new object, the only one in the store
  of the invocation.
\<close>

definition post :: "env \<Rightarrow> string list \<Rightarrow> py_exception + reply" where
  "post env args =
     and_then (openai_chat env (cap_prompt args) ''gpt-4o-mini'') (\<lambda>caption_text.
     and_then (openai_image env (img_prompt args) ''1024x1024'') (\<lambda>generated.
     and_then (add_logo_or_mark env [generated] 0) (\<lambda>(h, img).
     and_then (save_png env (h ! img)) (\<lambda>buf.
       Inr (ReplyPhoto buf (caption_text @ ''\<newline>\<newline>'' @ HASHTAGS))))))"

section \<open>Auxiliary notions and example worlds\<close>

text \<open>\<open>repaint h img h'\<close>: the store \<open>h'\<close> is \<open>h\<close> with new pixels in the object \<open>img\<close> and nothing else changed.\<close>

definition repaint :: "heap \<Rightarrow> ref \<Rightarrow> heap \<Rightarrow> bool" where
  "repaint h img h' \<longleftrightarrow> (\<exists>px. h' = h[img := (h ! img)\<lparr>pixels := px\<rparr>])"

text \<open>
  A world in which both services answer: the chat service with one completion, the image
  service with a 1024 x 1024 picture; no logo is configured, and the installed Pillow
  still has \<^verbatim>\<open>textsize\<close>.  The logo source has a picture 200 wide and 100 high; the bytes
  \<^verbatim>\<open>flat\<close> are a picture 1000 wide and 3 high.
\<close>

definition chat_body :: string where
  \<open>chat_body = ''{"choices":[{"message":{"content":"Ship something small today. practical > perfect."}}]}''\<close>

definition demo_image :: image where
  "demo_image = \<lparr>width = 1024, height = 1024, mode = ''RGB'', pixels = Decoded ''png''\<rparr>"

definition demo_logo :: image where
  "demo_logo = \<lparr>width = 200, height = 100, mode = ''P'', pixels = Decoded ''logo''\<rparr>"

definition flat_logo :: image where
  "flat_logo = \<lparr>width = 1000, height = 3, mode = ''RGBA'', pixels = Decoded ''flat''\<rparr>"

definition demo_env :: env where
  "demo_env =
     \<lparr>OPENAI_API_KEY = ''sk-test'', BRAND_PRIMARY = ''#2F3435'', BRAND_CREAM = ''#F4EFE2'',
      LOGO_URL = [],
      urlopen = (\<lambda>req t.
        if url req = ''https://api.openai.com/v1/chat/completions'' then Inr chat_body
        else Inr ''image-body''),
      utf8_decode = Some,
      json_loads = (\<lambda>s.
        if s = chat_body then
          Inr (JDict [(''choices'', JList [JDict [(''message'',
            JDict [(''content'', JStr ''Ship something small today. practical > perfect.'')])]])])
        else if s = ''image-body'' then
          Inr (JDict [(''data'', JList [JDict [(''b64_json'', JStr ''cG5n'')]])])
        else Inl NotJSON),
      b64decode = (\<lambda>s. if s = ''cG5n'' then Some ''png'' else None),
      Image_open = (\<lambda>raw.
        if raw = ''png'' then Inr demo_image
        else if raw = ''logo'' then Inr demo_logo
        else if raw = ''flat'' then Inr flat_logo
        else Inl NotAnImage),
      requests_get = (\<lambda>u t. Some ''logo''),
      load_fails = (\<lambda>i. None),
      convert_fails = (\<lambda>a b. False),
      resize_fails = (\<lambda>i s. fst s = 0 \<or> snd s = 0),
      composite_fails = (\<lambda>b ov d. mode b \<noteq> ''RGBA'' \<or> mode ov \<noteq> ''RGBA'' \<or> fst d < 0 \<or> snd d < 0),
      save_fails = (\<lambda>i. False),
      color_ok = (\<lambda>c. c = ''#2F3435'' \<or> c = ''#F4EFE2''),
      ink_refused = (\<lambda>i c. if mode i = ''PA'' then Some WrongInk else None),
      textsize = (\<lambda>t. Some (12, 11))\<rparr>"

text \<open>The same world with a logo configured, with the chat service timing out, and with
  the image service answering 503.\<close>

definition logo_env :: env where
  "logo_env = demo_env\<lparr>LOGO_URL := ''https://example.org/logo.png''\<rparr>"

definition chat_down_env :: env where
  "chat_down_env = demo_env\<lparr>urlopen := (\<lambda>req t. Inl TimeoutError)\<rparr>"

definition image_down_env :: env where
  "image_down_env = demo_env\<lparr>urlopen := (\<lambda>req t.
     if url req = ''https://api.openai.com/v1/chat/completions'' then Inr chat_body
     else Inl (HTTPError 503))\<rparr>"

text \<open>
  Worlds in which the response of a service lacks the expected field, the logo cannot be
  fetched, and the logo source answers with a page that is not an image.
\<close>

definition malformed_env :: env where
  "malformed_env = demo_env\<lparr>json_loads := (\<lambda>s. Inr (JDict [(''error'', JStr ''overloaded'')]))\<rparr>"

definition unreachable_env :: env where
  "unreachable_env = logo_env\<lparr>requests_get := (\<lambda>u t. None)\<rparr>"

definition undecodable_env :: env where
  "undecodable_env = logo_env\<lparr>requests_get := (\<lambda>u t. Some ''<html>404</html>'')\<rparr>"


definition no_colour_env :: env where
  "no_colour_env = demo_env\<lparr>BRAND_PRIMARY := []\<rparr>"

definition blank_env :: env where
  "blank_env = demo_env\<lparr>json_loads := (\<lambda>s.
     if s = chat_body then
       Inr (JDict [(''choices'', JList [JDict [(''message'', JDict [(''content'', JStr ''  '')])]])])
     else json_loads demo_env s)\<rparr>"

text \<open>
  A picture with a palette and an alpha band, and a world in which a file that was
  opened cannot be read to its end.
\<close>

definition palette_image :: image where
  "palette_image =
     \<lparr>width = 1024, height = 1024, mode = ''PA'', pixels = Converted ''PA'' (Decoded ''png'')\<rparr>"

definition truncated_env :: env where
  "truncated_env = demo_env\<lparr>load_fails := (\<lambda>i. Some Truncated)\<rparr>"


definition generated_image :: image where
  "generated_image =
     \<lparr>width = 1024, height = 1024, mode = ''RGBA'', pixels = Converted ''RGBA'' (Decoded ''png'')\<rparr>"

definition marked_image :: image where
  "marked_image =
     generated_image\<lparr>pixels :=
       TextOn (EllipseOn (pixels generated_image) (740, 740, 984, 984) ''#2F3435'')
         (856, 1713 / 2) ''pd'' ''#F4EFE2''\<rparr>"

definition pasted_image :: image where
  "pasted_image =
     generated_image\<lparr>pixels :=
       Composited (pixels generated_image)
         (Resized (163, 81) (Converted ''RGBA'' (Decoded ''logo''))) (821, 903)\<rparr>"

section \<open>Basic facts\<close>

lemma and_then_Inr [simp]: "and_then (Inr x) f = f x"
  by (simp add: and_then_def)

lemma and_then_Inl [simp]: "and_then (Inl e) f = Inl e"
  by (simp add: and_then_def)

lemma and_then_eq_Inr: "and_then r f = Inr y \<longleftrightarrow> (\<exists>x. r = Inr x \<and> f x = Inr y)"
  by (cases r) simp_all

lemma and_then_eq_Inl: "and_then r f = Inl e \<longleftrightarrow> r = Inl e \<or> (\<exists>x. r = Inr x \<and> f x = Inl e)"
  by (cases r) simp_all

subsection \<open>The classes of the exceptions of the libraries\<close>

lemma json_exception_cases: "json_exception why \<in> {JSONDecodeError, RecursionError}"
  by (cases why) simp_all


lemma ink_exception_cases: "ink_exception why \<in> {ValueError, TypeError}"
  by (cases why) simp_all

lemma decode_exception_lib [simp]:
  "decode_exception why \<noteq> Net n" "decode_exception why \<noteq> GenerationFailure k"
  "Net n \<noteq> decode_exception why" "GenerationFailure k \<noteq> decode_exception why"
  by (cases why; simp)+

subsection \<open>The drawing calls touch one object\<close>

lemma repaint_trans: "repaint h img h1 \<Longrightarrow> repaint h1 img h2 \<Longrightarrow> repaint h img h2"
  unfolding repaint_def by (cases "img < length h") (auto simp: list_update_beyond)

lemma ellipse_repaint: "ellipse env h img box fill = Inr h' \<Longrightarrow> repaint h img h'"
  unfolding repaint_def ellipse_def by (auto split: prod.splits if_splits option.splits)

lemma draw_pd_repaint: "draw_pd env h img cx cy = Inr h' \<Longrightarrow> repaint h img h'"
  unfolding repaint_def draw_pd_def by (auto split: prod.splits if_splits option.splits)

lemma alpha_composite_repaint: "alpha_composite env h img ov d = Inr h' \<Longrightarrow> repaint h img h'"
  unfolding repaint_def alpha_composite_def by (auto split: if_splits)

lemma draw_mark_repaint:
  assumes "draw_mark env h img = Inr h'"
  shows "repaint h img h'"
proof -
  from assms obtain h1 box cx cy where e: "ellipse env h img box (BRAND_PRIMARY env) = Inr h1"
    and d: "(case draw_pd env h1 img cx cy of Inl e \<Rightarrow> Inr h1 | Inr h2 \<Rightarrow> Inr h2)
              = (Inr h' :: py_exception + heap)"
    unfolding draw_mark_def Let_def and_then_eq_Inr by blast
  show ?thesis
  proof (cases "draw_pd env h1 img cx cy")
    case (Inl x)
    with d e show ?thesis by (simp add: ellipse_repaint)
  next
    case (Inr h2)
    with d have "h2 = h'" by simp
    with Inr e show ?thesis
      using repaint_trans ellipse_repaint draw_pd_repaint by blast
  qed
qed

lemma paste_logo_repaint:
  assumes "paste_logo env h img = Inr h'"
  shows "repaint h img h'"
  using assms unfolding paste_logo_def Let_def
  by (auto simp: and_then_eq_Inr split: option.splits if_splits dest: alpha_composite_repaint)

lemma add_logo_or_mark_cases:
  "add_logo_or_mark env h r =
     (case load_error env (h ! r) of
        Some why \<Rightarrow> Inl (decode_exception why)
      | None \<Rightarrow>
          if LOGO_URL env \<noteq> [] \<and> (\<exists>h2. paste_logo env (h @ [h ! r]) (length h) = Inr h2)
          then Inr (projr (paste_logo env (h @ [h ! r]) (length h)), length h)
          else and_then (draw_mark env (h @ [h ! r]) (length h)) (\<lambda>h3. Inr (h3, length h)))"
  unfolding add_logo_or_mark_def img_copy_def
  by (auto split: sum.splits option.splits)

lemma add_logo_or_mark_frame:
  assumes "add_logo_or_mark env h r = Inr (h', r')"
  shows "r' = length h \<and> (\<exists>px. h' = h @ [(h ! r)\<lparr>pixels := px\<rparr>])"
proof -
  let ?h1 = "h @ [h ! r]"
  from assms have l: "load_error env (h ! r) = None"
    by (auto simp: add_logo_or_mark_cases split: option.splits)
  have "r' = length h \<and> repaint ?h1 (length h) h'"
  proof (cases "LOGO_URL env \<noteq> [] \<and> (\<exists>h2. paste_logo env ?h1 (length h) = Inr h2)")
    case True
    then obtain h2 where p: "paste_logo env ?h1 (length h) = Inr h2" by blast
    with True assms l have "h' = h2 \<and> r' = length h"
      by (simp add: add_logo_or_mark_cases)
    with p show ?thesis using paste_logo_repaint by blast
  next
    case False
    with assms l have "and_then (draw_mark env ?h1 (length h)) (\<lambda>h3. Inr (h3, length h)) = Inr (h', r')"
      by (simp only: add_logo_or_mark_cases if_False option.case)
    then show ?thesis
      by (auto simp: and_then_eq_Inr dest: draw_mark_repaint)
  qed
  then show ?thesis
    by (auto simp: repaint_def)
qed

lemma add_logo_or_mark_shape:
  "add_logo_or_mark env h r = Inr (h', r') \<Longrightarrow>
     mode (h' ! r') = mode (h ! r) \<and> width (h' ! r') = width (h ! r) \<and>
     height (h' ! r') = height (h ! r)"
  by (drule add_logo_or_mark_frame) auto

lemma getink_Some: "getink env img fill = Some e \<Longrightarrow> e \<in> {ValueError, TypeError}"
  using ink_exception_cases by (auto simp: getink_def split: if_splits)

lemma ellipse_Inl: "ellipse env h img box fill = Inl e \<Longrightarrow> e \<in> {ValueError, TypeError}"
  unfolding ellipse_def
  by (auto split: prod.splits option.splits if_splits dest: getink_Some)

lemma glyph_optional:
  "and_then r (\<lambda>h1. case f h1 of Inl x \<Rightarrow> Inr h1 | Inr h2 \<Rightarrow> Inr h2) = Inl e \<Longrightarrow> r = Inl e"
  by (cases r) (auto split: sum.splits)

lemma draw_mark_Inl: "draw_mark env h img = Inl e \<Longrightarrow> e \<in> {ValueError, TypeError}"
  unfolding draw_mark_def Let_def
  by (drule glyph_optional) (rule ellipse_Inl)

lemma add_logo_or_mark_Inl:
  "add_logo_or_mark env h r = Inl e \<Longrightarrow>
     (\<exists>why. load_error env (h ! r) = Some why \<and> e = decode_exception why) \<or>
     (load_error env (h ! r) = None \<and> e \<in> {ValueError, TypeError})"
  by (auto simp: add_logo_or_mark_cases and_then_eq_Inl split: if_splits option.splits
      dest!: draw_mark_Inl)

lemma convert_mode: "convert env m img = Inr g \<Longrightarrow> mode g = m"
  by (auto simp: convert_def split: if_splits option.splits)

lemma openai_image_mode: "openai_image env p sz = Inr g \<Longrightarrow> mode g = ''RGBA''"
  by (auto simp: openai_image_def and_then_eq_Inr dest: convert_mode)

lemma post_Inr:
  assumes "post env args = Inr rep"
  shows "\<exists>ct g h' r'. openai_chat env (cap_prompt args) ''gpt-4o-mini'' = Inr ct \<and>
           openai_image env (img_prompt args) ''1024x1024'' = Inr g \<and>
           add_logo_or_mark env [g] 0 = Inr (h', r') \<and>
           \<not> save_fails env (h' ! r') \<and>
           rep = ReplyPhoto (PNG (h' ! r')) (ct @ ''\<newline>\<newline>'' @ HASHTAGS)"
  using assms unfolding post_def
  by (auto simp: and_then_eq_Inr save_png_def split: if_splits)

lemma post_Inl:
  assumes "post env args = Inl e"
  shows "openai_chat env (cap_prompt args) ''gpt-4o-mini'' = Inl e \<or>
     (\<exists>ct. openai_chat env (cap_prompt args) ''gpt-4o-mini'' = Inr ct \<and>
        (openai_image env (img_prompt args) ''1024x1024'' = Inl e \<or>
         (\<exists>g. openai_image env (img_prompt args) ''1024x1024'' = Inr g \<and>
            (add_logo_or_mark env [g] 0 = Inl e \<or>
             (\<exists>h' r'. add_logo_or_mark env [g] 0 = Inr (h', r') \<and>
                save_fails env (h' ! r') \<and> e = OSError)))))"
  using assms unfolding post_def
  by (auto simp: and_then_eq_Inl save_png_def split: if_splits)

lemma post_photo:
  assumes "openai_chat env (cap_prompt args) ''gpt-4o-mini'' = Inr ct"
    and "openai_image env (img_prompt args) ''1024x1024'' = Inr g"
    and "add_logo_or_mark env [g] 0 = Inr (h', r')"
    and "\<not> save_fails env (h' ! r')"
  shows "post env args = Inr (ReplyPhoto (PNG (h' ! r')) (ct @ ''\<newline>\<newline>'' @ HASHTAGS))"
  using assms by (simp add: post_def save_png_def)

subsection \<open>Strings\<close>

lemma topic_given:
  "join '' '' args \<noteq> [] \<Longrightarrow>
     caption_topic args = join '' '' args \<and> post_topic args = join '' '' args"
  by (simp add: caption_topic_def post_topic_def py_or_def)

lemma sublist_after2: "sublist t (a @ b @ t @ r)"
  using sublist_appendI [of t "a @ b" r] by simp

lemma sublist_after4: "sublist t (a @ b @ c @ d @ t @ r)"
  using sublist_appendI [of t "a @ b @ c @ d" r] by simp

lemma sublist_chars: "sublist xs ys \<Longrightarrow> set xs \<subseteq> set ys"
  by (auto simp: sublist_def)

lemma no_z_in_idea_prompt: "CHR ''z'' \<notin> set idea_prompt"
  by (simp add: idea_prompt_def VOICE_def em_dash_def en_dash_def)

subsection \<open>The example worlds, evaluated\<close>

lemmas float_defs = float_of_nat_def float_mul_def round_double_def int_of_float_def
  lit_0_12_def lit_0_16_def Let_def

lemma radius_1024: "width img = 1024 \<Longrightarrow> mark_radius img = 122"
  by (simp add: mark_radius_def float_defs)

lemma logo_width_1024: "width img = 1024 \<Longrightarrow> logo_width img = 163"
  by (simp add: logo_width_def float_defs)

lemma truediv_163_200: "truediv 163 200 = (7340867392613908, - 53)"
proof -
  have k: "(54 + bitlen 200) - bitlen 163 = 54"
    by simp
  have n: "(163 * 2 ^ 54) div 200 = (14681734785227816::nat)"
    and s: "(163 * 2 ^ 54) mod 200 = (192::nat)"
    by simp_all
  have "round_double (2 * 14681734785227816 + 1) (- int 54 - 1) = (7340867392613908, - 53)"
    by (simp add: round_double_def Let_def)
  then show ?thesis
    unfolding truediv_def k Let_def n s by simp
qed

lemma logo_height_demo: "width logo = 200 \<Longrightarrow> height logo = 100 \<Longrightarrow> logo_height 163 logo = 81"
  by (simp add: logo_height_def truediv_163_200 float_defs)

lemma demo_chat:
  "openai_chat demo_env p m = Inr ''Ship something small today. practical > perfect.''"
  by (simp add: openai_chat_def fetch_json_def chat_request_def demo_env_def chat_body_def
      py_index_def strip_def lstrip_def rstrip_def WHITESPACE_def space_len_def)

lemma blank_chat: "openai_chat blank_env p m = Inr []"
  by (simp add: openai_chat_def fetch_json_def chat_request_def blank_env_def demo_env_def
      chat_body_def py_index_def strip_def lstrip_def rstrip_def WHITESPACE_def space_len_def)

lemma no_colour_chat:
  "openai_chat no_colour_env p m = Inr ''Ship something small today. practical > perfect.''"
  by (simp add: openai_chat_def fetch_json_def chat_request_def no_colour_env_def demo_env_def
      chat_body_def py_index_def strip_def lstrip_def rstrip_def WHITESPACE_def space_len_def)

lemma demo_generated: "openai_image demo_env p sz = Inr generated_image"
  by (simp add: openai_image_def fetch_json_def image_request_def demo_env_def chat_body_def
      py_index_def is_ascii_def open_image_def convert_def load_error_def demo_image_def
      generated_image_def)

lemma blank_generated: "openai_image blank_env p sz = Inr generated_image"
  by (simp add: openai_image_def fetch_json_def image_request_def blank_env_def demo_env_def
      chat_body_def py_index_def is_ascii_def open_image_def convert_def load_error_def
      demo_image_def generated_image_def)

lemma no_colour_generated: "openai_image no_colour_env p sz = Inr generated_image"
  by (simp add: openai_image_def fetch_json_def image_request_def no_colour_env_def demo_env_def
      chat_body_def py_index_def is_ascii_def open_image_def convert_def load_error_def
      demo_image_def generated_image_def)

lemma demo_mark: "add_logo_or_mark demo_env [generated_image] 0 = Inr ([generated_image, marked_image], 1)"
  by (simp add: add_logo_or_mark_def img_copy_def load_error_def draw_mark_def ellipse_def
      draw_pd_def getink_def radius_1024 demo_env_def generated_image_def marked_image_def)

lemma blank_mark: "add_logo_or_mark blank_env [generated_image] 0 = Inr ([generated_image, marked_image], 1)"
  by (simp add: add_logo_or_mark_def img_copy_def load_error_def draw_mark_def ellipse_def
      draw_pd_def getink_def radius_1024 blank_env_def demo_env_def generated_image_def
      marked_image_def)

lemma no_colour_mark: "add_logo_or_mark no_colour_env [generated_image] 0 = Inl ValueError"
  by (simp add: add_logo_or_mark_def img_copy_def load_error_def draw_mark_def ellipse_def
      getink_def no_colour_env_def demo_env_def generated_image_def)

lemma demo_paste: "add_logo_or_mark logo_env [generated_image] 0 = Inr ([generated_image, pasted_image], 1)"
  by (simp add: add_logo_or_mark_def img_copy_def load_error_def paste_logo_def open_image_def
      convert_def resize_def alpha_composite_def logo_width_1024 logo_height_demo logo_env_def
      demo_env_def demo_logo_def generated_image_def pasted_image_def)

lemma demo_post:
  "post demo_env args = Inr (ReplyPhoto (PNG marked_image)
     (''Ship something small today. practical > perfect.'' @ ''\<newline>\<newline>'' @ HASHTAGS))"
  by (simp add: post_def demo_chat demo_generated demo_mark save_png_def)
    (simp add: demo_env_def)

lemma blank_post: "post blank_env args = Inr (ReplyPhoto (PNG marked_image) (''\<newline>\<newline>'' @ HASHTAGS))"
  by (simp add: post_def blank_chat blank_generated blank_mark save_png_def)
    (simp add: blank_env_def demo_env_def)

lemma no_colour_post: "post no_colour_env args = Inl ValueError"
  by (simp add: post_def no_colour_chat no_colour_generated no_colour_mark)

lemma chat_down: "openai_chat chat_down_env p m = Inl (Net TimeoutError)"
  by (simp add: openai_chat_def fetch_json_def chat_down_env_def demo_env_def)

lemma image_down_chat:
  "openai_chat image_down_env p m = Inr ''Ship something small today. practical > perfect.''"
  by (simp add: openai_chat_def fetch_json_def chat_request_def image_down_env_def demo_env_def
      chat_body_def py_index_def strip_def lstrip_def rstrip_def WHITESPACE_def space_len_def)

lemma image_down: "openai_image image_down_env p sz = Inl (Net (HTTPError 503))"
  by (simp add: openai_image_def fetch_json_def image_request_def image_down_env_def demo_env_def)


lemma malformed_image: "openai_image malformed_env p sz = Inl KeyError"
  by (simp add: openai_image_def fetch_json_def malformed_env_def demo_env_def)

section \<open>Facts about the floating-point model\<close>

text \<open>
  The two truncated products of the compositor are characterised exactly:
  \<^verbatim>\<open>int(width * 0.12)\<close> is \<open>12 * width div 100\<close> and \<^verbatim>\<open>int(width * 0.16)\<close> is
  \<open>16 * width div 100\<close> for widths below 2^31, although neither literal is the decimal
  fraction it is written as.  The equation of \<open>bitlen\<close> calls itself, so it leaves the
  simplifier's rules here.
\<close>

declare bitlen.simps [simp del]

lemma bitlen_0 [simp]: "bitlen 0 = 0"
  by (simp add: bitlen.simps)

lemma bitlen_pos: "0 < n \<Longrightarrow> bitlen n = Suc (bitlen (n div 2))"
  by (subst bitlen.simps) simp

lemma bitlen_upper: "n < 2 ^ bitlen n"
proof (induction n rule: bitlen.induct)
  case (1 n)
  show ?case
  proof (cases "n = 0")
    case True
    then show ?thesis by simp
  next
    case False
    with 1 have "n div 2 < 2 ^ bitlen (n div 2)" by simp
    then have "n < 2 * 2 ^ bitlen (n div 2)" by linarith
    with False show ?thesis by (simp add: bitlen_pos)
  qed
qed

lemma bitlen_lower: "0 < n \<Longrightarrow> 2 ^ (bitlen n - 1) \<le> n"
proof (induction n rule: bitlen.induct)
  case (1 n)
  show ?case
  proof (cases "n div 2 = 0")
    case True
    with 1(2) have "n = 1" by linarith
    then show ?thesis by (simp add: bitlen_pos)
  next
    case False
    with 1 have "2 ^ (bitlen (n div 2) - 1) \<le> n div 2" by simp
    moreover from False have "bitlen (n div 2) = Suc (bitlen (n div 2) - 1)"
      by (simp add: bitlen_pos)
    ultimately have "2 ^ bitlen (n div 2) \<le> 2 * (n div 2)"
      by (metis power_Suc mult_le_mono2)
    also have "\<dots> \<le> n" by simp
    finally show ?thesis using 1(2) by (simp add: bitlen_pos)
  qed
qed

lemma bitlen_le: "n < 2 ^ k \<Longrightarrow> bitlen n \<le> k"
proof (cases "n = 0")
  case True
  then show ?thesis by simp
next
  case False
  assume "n < 2 ^ k"
  with False bitlen_lower [of n] have "(2::nat) ^ (bitlen n - 1) < 2 ^ k"
    using le_less_trans by blast
  then have "bitlen n - 1 < k" by (simp add: power_strict_increasing_iff)
  then show ?thesis by simp
qed

lemma trunc_round:
  assumes b: "bitlen P \<le> N + 53"
    and lo: "(k * 2 ^ N - P) * 2 ^ 54 \<le> P"
    and hi: "P * (2 ^ 53 + 1) < (k + 1) * 2 ^ (N + 53)"
  shows "int_of_float (round_double P (- int N)) = k"
proof (cases "bitlen P \<le> 53")
  case True
  then have "P < 2 ^ 53"
    using bitlen_upper [of P] power_increasing [of "bitlen P" 53 "2::nat"] by simp
  with lo have "k * 2 ^ N - P = 0" by simp
  then have l: "k * 2 ^ N \<le> P" by simp
  have "P * 2 ^ 53 \<le> P * (2 ^ 53 + 1)" by simp
  with hi have "P * 2 ^ 53 < ((k + 1) * 2 ^ N) * 2 ^ 53" by (simp add: power_add)
  then have u: "P < (k + 1) * 2 ^ N" by simp
  from l u have "P div 2 ^ N = k"
    by (intro div_nat_eqI) (simp_all add: mult.commute)
  with True show ?thesis
    by (cases "N = 0") (simp_all add: round_double_def int_of_float_def)
next
  case False
  define s where "s = bitlen P - 53"
  define X :: nat where "X = 2 ^ s"
  define half :: nat where "half = 2 ^ (s - 1)"
  define Y :: nat where "Y = 2 ^ (N - s)"
  define q where "q = P div X"
  define rm where "rm = P mod X"
  define q' where "q' = (if half < rm \<or> (rm = half \<and> odd q) then q + 1 else q)"
  from False have s1: "1 \<le> s" and sN: "s \<le> N" and bl: "bitlen P = s + 53"
    using b by (simp_all add: s_def)
  have X2: "X = 2 * half"
    using s1 by (simp add: X_def half_def flip: power_Suc)
  have XY: "X * Y = 2 ^ N"
    using sN by (simp add: X_def Y_def flip: power_add)
  have Ppos: "0 < P" using False by (cases "P = 0") simp_all
  have "2 ^ (bitlen P - 1) \<le> P" using bitlen_lower Ppos by blast
  moreover have "bitlen P - 1 = (s - 1) + 53" using bl s1 by simp
  ultimately have Plo: "half * 2 ^ 53 \<le> P"
    by (simp add: half_def power_add)
  have "P < 2 ^ bitlen P" by (rule bitlen_upper)
  moreover have "bitlen P = (s - 1) + 54" using bl s1 by simp
  ultimately have Phi: "P < half * 2 ^ 54"
    by (simp add: half_def power_add)
  have Pq: "P = q * X + rm"
    by (simp add: q_def rm_def)
  have rmX: "rm < X"
    by (simp add: rm_def X_def)
  have Rhi: "q' * X \<le> P + half"
    using Pq rmX X2 by (auto simp: q'_def algebra_simps)
  have Rlo: "P \<le> q' * X + half"
    using Pq rmX X2 by (auto simp: q'_def algebra_simps)
  have rd: "round_double P (- int N) = (q', int s - int N)"
    using s1 by (simp add: round_double_def Let_def s_def [symmetric] q'_def q_def rm_def X_def half_def)
  have res: "int_of_float (round_double P (- int N)) = q' div Y"
  proof (cases "s = N")
    case True
    then show ?thesis by (simp add: rd int_of_float_def Y_def)
  next
    case False
    with sN have "s < N" by simp
    then show ?thesis
      by (simp add: rd int_of_float_def Y_def nat_diff_distrib')
  qed
  have upper: "q' < (k + 1) * Y"
  proof -
    have "q' * X * 2 ^ 53 \<le> (P + half) * 2 ^ 53" using Rhi by simp
    also have "\<dots> \<le> P * 2 ^ 53 + P" using Plo by (simp add: algebra_simps)
    also have "\<dots> = P * (2 ^ 53 + 1)" by (simp add: algebra_simps)
    also have "\<dots> < (k + 1) * 2 ^ (N + 53)" by (rule hi)
    also have "\<dots> = ((k + 1) * Y) * X * 2 ^ 53"
      using XY by (simp add: power_add algebra_simps)
    finally have "q' * X < ((k + 1) * Y) * X" by simp
    then show ?thesis by simp
  qed
  have lower: "k * Y \<le> q'"
  proof (rule ccontr)
    assume "\<not> k * Y \<le> q'"
    then have "q' + 1 \<le> k * Y" by simp
    then have "(q' + 1) * X \<le> k * Y * X" by (rule mult_le_mono1)
    also have "k * Y * X = k * 2 ^ N" by (metis XY mult.assoc mult.commute)
    finally have "q' * X + X \<le> k * 2 ^ N" by (simp add: add_mult_distrib)
    with Rlo X2 have "P + half \<le> k * 2 ^ N" by simp
    then have "half \<le> k * 2 ^ N - P" by simp
    then have "half * 2 ^ 54 \<le> (k * 2 ^ N - P) * 2 ^ 54" by (rule mult_le_mono1)
    with lo Phi show False by simp
  qed
  from lower upper have "q' div Y = k"
    by (intro div_nat_eqI) (simp_all add: mult.commute)
  with res show ?thesis by simp
qed

lemma lo12:
  fixes W k :: nat
  assumes k1: "100 * k \<le> 12 * W"
  shows "(k * 2 ^ 56 - W * 8646911284551352) * 2 ^ 54 \<le> W * 8646911284551352"
proof -
  have "100 * (k * 2 ^ 56) \<le> W * (100 * 8646911284551352 + 32)"
    using k1 by simp
  then have "100 * (k * 2 ^ 56 - W * 8646911284551352) \<le> 32 * W"
    by simp
  then have "100 * (k * 2 ^ 56 - W * 8646911284551352) * 2 ^ 54 \<le> 32 * W * 2 ^ 54"
    by (rule mult_le_mono1)
  also have "\<dots> \<le> 100 * (W * 8646911284551352)" by simp
  finally show ?thesis by simp
qed

lemma hi12:
  fixes W k :: nat
  assumes W: "W < 2147483648" and k1: "100 * k \<le> 12 * W" and k2: "12 * W < 100 * k + 100"
  shows "W * 8646911284551352 * (2 ^ 53 + 1) < (k + 1) * 2 ^ (56 + 53)"
proof -
  have k: "100 * k + 99 < 2 ^ 53" using W k1 by simp
  have "100 * (W * 8646911284551352) \<le> (12 * W) * 2 ^ 56" by simp
  also have "\<dots> \<le> (100 * k + 99) * 2 ^ 56"
    using k2 by (intro mult_le_mono1) simp
  finally have "100 * (W * 8646911284551352) * (2 ^ 53 + 1) \<le> (100 * k + 99) * 2 ^ 56 * (2 ^ 53 + 1)"
    by (rule mult_le_mono1)
  also have "\<dots> = (100 * k + 99) * 2 ^ 109 + (100 * k + 99) * 2 ^ 56"
    by (simp add: algebra_simps)
  also have "\<dots> < (100 * k + 99) * 2 ^ 109 + 2 ^ 53 * 2 ^ 56"
    using k by (intro add_strict_left_mono mult_strict_right_mono) simp_all
  also have "\<dots> = 100 * ((k + 1) * 2 ^ (56 + 53))"
    by simp
  finally show ?thesis by simp
qed



lemma float_of_nat_exact: "n < 2 ^ 53 \<Longrightarrow> float_of_nat n = (n, 0)"
  using bitlen_le [of n 53] by (simp add: float_of_nat_def round_double_def)

lemma mark_radius_floor:
  assumes "width img < 2 ^ 31"
  shows "mark_radius img = 12 * width img div 100"
proof -
  define W where "W = width img"
  define k where "k = 12 * W div 100"
  have W: "W < 2147483648" using assms by (simp add: W_def)
  have k1: "100 * k \<le> 12 * W" and k2: "12 * W < 100 * k + 100"
    unfolding k_def by simp_all
  have "W * 8646911284551352 < 2147483648 * 8646911284551352"
    using W by (rule mult_strict_right_mono) simp
  then have "W * 8646911284551352 < 2 ^ 109" by simp
  then have b: "bitlen (W * 8646911284551352) \<le> 56 + 53"
    using bitlen_le [of "W * 8646911284551352" 109] by simp
  have "float_of_nat W = (W, 0)"
    using W by (intro float_of_nat_exact) simp
  then have "mark_radius img = int_of_float (round_double (W * 8646911284551352) (- int 56))"
    by (simp add: mark_radius_def W_def float_mul_def lit_0_12_def)
  with trunc_round [OF b lo12 [OF k1] hi12 [OF W k1 k2]] show ?thesis
    by (simp add: k_def W_def)
qed


subsection \<open>The scaled height keeps the aspect ratio\<close>






section \<open>The clients\<close>

subsection \<open>Where an exception of a client comes from\<close>

lemma fetch_json_Inl:
  assumes "fetch_json env req t = Inl e"
  shows "(\<exists>n. urlopen env req t = Inl n \<and> e = Net n) \<or>
         ((\<exists>body. urlopen env req t = Inr body) \<and>
          e \<in> {UnicodeDecodeError, JSONDecodeError, RecursionError})"
  using assms json_exception_cases unfolding fetch_json_def
  by (auto split: sum.splits option.splits)

lemma fetch_json_Inr: "fetch_json env req t = Inr out \<Longrightarrow> \<exists>body. urlopen env req t = Inr body"
  unfolding fetch_json_def by (auto split: sum.splits option.splits)


lemma getitem_Inl: "getitem j k = Inl e \<Longrightarrow> e \<in> {KeyError, IndexError, TypeError}"
  by (cases "(j, k)" rule: getitem.cases) (auto split: option.splits)

lemma strip_method_Inl: "strip_method j = Inl e \<Longrightarrow> e = AttributeError"
  by (cases j) auto

lemma b64decode_json_Inl: "b64decode_json env j = Inl e \<Longrightarrow> e \<in> {ValueError, BinasciiError, TypeError}"
  by (cases j) (auto split: option.splits if_splits)

lemma open_image_Inl: "open_image env raw = Inl e \<Longrightarrow> \<exists>why. e = decode_exception why"
  unfolding open_image_def
  by (cases "Image_open env raw") auto

lemma convert_Inl: "convert env m img = Inl e \<Longrightarrow> e = ValueError \<or> (\<exists>why. e = decode_exception why)"
  by (auto simp: convert_def split: if_splits option.splits)

lemma openai_chat_Inl:
  assumes "openai_chat env p m = Inl e"
  shows "(\<exists>n. urlopen env (chat_request env p m) 60 = Inl n \<and> e = Net n) \<or>
         ((\<exists>body. urlopen env (chat_request env p m) 60 = Inr body) \<and>
          e \<in> {UnicodeDecodeError, JSONDecodeError, RecursionError, KeyError, IndexError, TypeError,
               AttributeError})"
  using assms unfolding openai_chat_def and_then_eq_Inl
  by (auto dest!: fetch_json_Inl getitem_Inl strip_method_Inl dest: fetch_json_Inr)

lemma openai_image_Inl:
  assumes "openai_image env p sz = Inl e"
  shows "(\<exists>n. urlopen env (image_request env p sz) 120 = Inl n \<and> e = Net n) \<or>
         ((\<exists>body. urlopen env (image_request env p sz) 120 = Inr body) \<and>
          (e \<in> {UnicodeDecodeError, JSONDecodeError, RecursionError, KeyError, IndexError, TypeError,
                ValueError, BinasciiError} \<or>
           (\<exists>why. e = decode_exception why)))"
  using assms unfolding openai_image_def and_then_eq_Inl
  by (auto dest!: fetch_json_Inl getitem_Inl b64decode_json_Inl open_image_Inl convert_Inl
      dest: fetch_json_Inr)




section \<open>The commands\<close>

text \<open>
  C4.  A \<^verbatim>\<open>/caption\<close> run replies with the text the chat client returned, then a blank
  line, then the constant \<open>HASHTAGS\<close>, once.  For the topic \<^verbatim>\<open>plaintext.daily\<close> and the
  completion "Ship something small today. practical > perfect." the reply is that
  sentence, a blank line and the six hashtags.
\<close>

theorem caption_appends_hashtags:
  "(openai_chat env (caption_prompt args) ''gpt-4o-mini'' = Inr ct \<longrightarrow>
      caption env args = Inr (ReplyText (ct @ ''\<newline>\<newline>'' @ HASHTAGS))) \<and>
   (openai_chat env (caption_prompt [''plaintext.daily'']) ''gpt-4o-mini'' =
        Inr ''Ship something small today. practical > perfect.'' \<longrightarrow>
      caption env [''plaintext.daily''] = Inr (ReplyText
        ''Ship something small today. practical > perfect.\<newline>\<newline>#plaintextdaily #internetfieldnotes #practicaloverperfect #makerhabits #shipdaily #minimaldesign''))"
  by (simp add: caption_def HASHTAGS_def)

theorem caption_appends_hashtags_witness:
  "caption demo_env [''plaintext.daily''] = Inr (ReplyText
     ''Ship something small today. practical > perfect.\<newline>\<newline>#plaintextdaily #internetfieldnotes #practicaloverperfect #makerhabits #shipdaily #minimaldesign'')"
proof -
  have "openai_chat demo_env (caption_prompt [''plaintext.daily'']) ''gpt-4o-mini'' =
      Inr ''Ship something small today. practical > perfect.''"
    by (rule demo_chat)
  with caption_appends_hashtags [of demo_env "[''plaintext.daily'']"]
  show ?thesis by blast
qed

text \<open>
  C8, as stated, fails for the prompt of \<^verbatim>\<open>/idea\<close>: the handler never reads its arguments,
  so with the topic \<^verbatim>\<open>zebra\<close> it runs as it does with no topic, on a prompt in which the
  topic does not occur.
\<close>

theorem idea_prompt_counterexample:
  "join '' '' [''zebra''] = ''zebra'' \<and> ''zebra'' \<noteq> [] \<and>
   idea demo_env [''zebra''] = idea demo_env [] \<and>
   \<not> sublist ''zebra'' idea_prompt"
proof -
  have "\<not> sublist ''zebra'' idea_prompt"
    using sublist_chars [of "''zebra''" idea_prompt] no_z_in_idea_prompt by auto
  then show ?thesis by (simp add: idea_def)
qed

text \<open>
  C8, amended.  When the arguments of \<^verbatim>\<open>/caption\<close> or \<^verbatim>\<open>/post\<close> give a non-empty topic, the
  caption prompt of \<^verbatim>\<open>/caption\<close> and both prompts of \<^verbatim>\<open>/post\<close> contain that topic verbatim, as
  a contiguous run.  The prompt of \<^verbatim>\<open>/idea\<close> is a constant: the run does not depend on the
  arguments.
\<close>

theorem prompts_contain_topic:
  assumes "join '' '' args \<noteq> []"
  shows "sublist (join '' '' args) (caption_prompt args) \<and>
         sublist (join '' '' args) (cap_prompt args) \<and>
         sublist (join '' '' args) (img_prompt args) \<and>
         idea env args = idea env []"
proof -
  let ?t = "join '' '' args"
  have c: "caption_topic args = ?t" and p: "post_topic args = ?t"
    using assms topic_given by blast+
  have "sublist ?t (caption_prompt args)"
    unfolding caption_prompt_def c by (rule sublist_after2)
  moreover have "sublist ?t (cap_prompt args)"
    unfolding cap_prompt_def p by (rule sublist_after4)
  moreover have "sublist ?t (img_prompt args)"
    unfolding img_prompt_def p by (rule sublist_after2)
  moreover have "idea env args = idea env []"
    by (simp add: idea_def)
  ultimately show ?thesis by blast
qed

theorem prompts_contain_topic_witness:
  "join '' '' [''ship'', ''daily''] = ''ship daily'' \<and>
   sublist ''ship daily'' (caption_prompt [''ship'', ''daily'']) \<and>
   sublist ''ship daily'' (cap_prompt [''ship'', ''daily'']) \<and>
   sublist ''ship daily'' (img_prompt [''ship'', ''daily'']) \<and>
   idea demo_env [''ship'', ''daily''] = idea demo_env []"
proof -
  have j: "join '' '' [''ship'', ''daily''] = ''ship daily''" by simp
  then have "join '' '' [''ship'', ''daily''] \<noteq> []" by simp
  from prompts_contain_topic [OF this, of demo_env] show ?thesis unfolding j by simp
qed


text \<open>
  C3, as stated, fails twice.  The completion is not checked: when the chat service
  answers with blanks, \<^verbatim>\<open>strip\<close> leaves the empty text and the photo is sent with the
  hashtags as its whole caption.  And a run can end in an exception that is no failure of
  a generation client: with both clients successful and a primary colour the image
  library does not know, the \<open>ValueError\<close> of \<^verbatim>\<open>draw.ellipse\<close> ends the run.
\<close>

theorem post_blank_caption_counterexample:
  "openai_chat blank_env (cap_prompt []) ''gpt-4o-mini'' = Inr [] \<and>
   post blank_env [] = Inr (ReplyPhoto (PNG marked_image) ([] @ ''\<newline>\<newline>'' @ HASHTAGS)) \<and>
   openai_chat no_colour_env (cap_prompt []) ''gpt-4o-mini'' =
     Inr ''Ship something small today. practical > perfect.'' \<and>
   openai_image no_colour_env (img_prompt []) ''1024x1024'' = Inr generated_image \<and>
   post no_colour_env [] = Inl ValueError"
  by (simp add: blank_chat blank_post no_colour_chat no_colour_generated no_colour_post)

text \<open>
  C3, amended.  A \<^verbatim>\<open>/post\<close> run either sends one photo message or ends in an exception with
  nothing sent; it never sends a text without a photo.  The photo is the PNG encoding of
  the image \<^verbatim>\<open>add_logo_or_mark\<close> returned for the RGBA image the image client generated, and
  its caption is the completion of the chat client, which may be empty, then a blank line
  and the hashtags.  The exception is the one of the step that failed, unchanged: of the
  chat client, of the image client, of the compositor or of the PNG encoder, and never a
  \<^verbatim>\<open>GenerationFailure\<close>.  A failure of
  either client ends the run with that failure, and when all four steps succeed the photo
  is sent.
\<close>

theorem post_all_or_nothing:
  "(post env args = Inr rep \<longrightarrow>
      (\<exists>ct g h' r'. openai_chat env (cap_prompt args) ''gpt-4o-mini'' = Inr ct \<and>
         openai_image env (img_prompt args) ''1024x1024'' = Inr g \<and>
         add_logo_or_mark env [g] 0 = Inr (h', r') \<and>
         \<not> save_fails env (h' ! r') \<and>
         rep = ReplyPhoto (PNG (h' ! r')) (ct @ ''\<newline>\<newline>'' @ HASHTAGS) \<and>
         mode (h' ! r') = ''RGBA'')) \<and>
   (post env args = Inl e \<longrightarrow>
      openai_chat env (cap_prompt args) ''gpt-4o-mini'' = Inl e \<or>
      (\<exists>ct. openai_chat env (cap_prompt args) ''gpt-4o-mini'' = Inr ct \<and>
         (openai_image env (img_prompt args) ''1024x1024'' = Inl e \<or>
          (\<exists>g. openai_image env (img_prompt args) ''1024x1024'' = Inr g \<and>
             (add_logo_or_mark env [g] 0 = Inl e \<or>
              (\<exists>h' r'. add_logo_or_mark env [g] 0 = Inr (h', r') \<and>
                 save_fails env (h' ! r') \<and> e = OSError)))))) \<and>
   (openai_chat env (cap_prompt args) ''gpt-4o-mini'' = Inl e \<longrightarrow> post env args = Inl e) \<and>
   (openai_chat env (cap_prompt args) ''gpt-4o-mini'' = Inr t \<and>
      openai_image env (img_prompt args) ''1024x1024'' = Inl e \<longrightarrow> post env args = Inl e) \<and>
   (openai_chat env (cap_prompt args) ''gpt-4o-mini'' = Inr t \<and>
      openai_image env (img_prompt args) ''1024x1024'' = Inr g \<and>
      add_logo_or_mark env [g] 0 = Inr (h, r) \<and> \<not> save_fails env (h ! r) \<longrightarrow>
      post env args = Inr (ReplyPhoto (PNG (h ! r)) (t @ ''\<newline>\<newline>'' @ HASHTAGS))) \<and>
   post env args \<noteq> Inr (ReplyText t) \<and>
   post env args \<noteq> Inl (GenerationFailure k)"
proof (intro conjI impI)
  assume "post env args = Inr rep"
  from post_Inr [OF this] obtain ct g h' r' where
    t: "openai_chat env (cap_prompt args) ''gpt-4o-mini'' = Inr ct" and
    g: "openai_image env (img_prompt args) ''1024x1024'' = Inr g" and
    a: "add_logo_or_mark env [g] 0 = Inr (h', r')" and
    s: "\<not> save_fails env (h' ! r')" and
    r: "rep = ReplyPhoto (PNG (h' ! r')) (ct @ ''\<newline>\<newline>'' @ HASHTAGS)"
    by blast
  from add_logo_or_mark_shape [OF a] openai_image_mode [OF g]
  have "mode (h' ! r') = ''RGBA''" by simp
  with t g a s r show "\<exists>ct g h' r'. openai_chat env (cap_prompt args) ''gpt-4o-mini'' = Inr ct \<and>
         openai_image env (img_prompt args) ''1024x1024'' = Inr g \<and>
         add_logo_or_mark env [g] 0 = Inr (h', r') \<and>
         \<not> save_fails env (h' ! r') \<and>
         rep = ReplyPhoto (PNG (h' ! r')) (ct @ ''\<newline>\<newline>'' @ HASHTAGS) \<and>
         mode (h' ! r') = ''RGBA''"
    by blast
next
  assume "post env args = Inl e"
  from post_Inl [OF this]
  show "openai_chat env (cap_prompt args) ''gpt-4o-mini'' = Inl e \<or>
      (\<exists>ct. openai_chat env (cap_prompt args) ''gpt-4o-mini'' = Inr ct \<and>
         (openai_image env (img_prompt args) ''1024x1024'' = Inl e \<or>
          (\<exists>g. openai_image env (img_prompt args) ''1024x1024'' = Inr g \<and>
             (add_logo_or_mark env [g] 0 = Inl e \<or>
              (\<exists>h' r'. add_logo_or_mark env [g] 0 = Inr (h', r') \<and>
                 save_fails env (h' ! r') \<and> e = OSError)))))" .
next
  assume "openai_chat env (cap_prompt args) ''gpt-4o-mini'' = Inl e"
  then show "post env args = Inl e" by (simp add: post_def)
next
  assume "openai_chat env (cap_prompt args) ''gpt-4o-mini'' = Inr t \<and>
      openai_image env (img_prompt args) ''1024x1024'' = Inl e"
  then show "post env args = Inl e" by (simp add: post_def)
next
  assume "openai_chat env (cap_prompt args) ''gpt-4o-mini'' = Inr t \<and>
      openai_image env (img_prompt args) ''1024x1024'' = Inr g \<and>
      add_logo_or_mark env [g] 0 = Inr (h, r) \<and> \<not> save_fails env (h ! r)"
  then show "post env args = Inr (ReplyPhoto (PNG (h ! r)) (t @ ''\<newline>\<newline>'' @ HASHTAGS))"
    using post_photo by blast
next
  show "post env args \<noteq> Inr (ReplyText t)"
    using post_Inr [of env args "ReplyText t"] by auto
next
  show "post env args \<noteq> Inl (GenerationFailure k)"
  proof
    assume "post env args = Inl (GenerationFailure k)"
    from post_Inl [OF this] show False
      by (auto dest!: openai_chat_Inl openai_image_Inl add_logo_or_mark_Inl)
  qed
qed

theorem post_all_or_nothing_witness:
  "post chat_down_env [''ship'', ''daily''] = Inl (Net TimeoutError) \<and>
   post image_down_env [''ship'', ''daily''] = Inl (Net (HTTPError 503)) \<and>
   openai_chat demo_env (cap_prompt [''ship'', ''daily'']) ''gpt-4o-mini'' =
     Inr ''Ship something small today. practical > perfect.'' \<and>
   openai_image demo_env (img_prompt [''ship'', ''daily'']) ''1024x1024'' = Inr generated_image \<and>
   add_logo_or_mark demo_env [generated_image] 0 = Inr ([generated_image, marked_image], 1) \<and>
   \<not> save_fails demo_env ([generated_image, marked_image] ! 1) \<and>
   post demo_env [''ship'', ''daily''] = Inr (ReplyPhoto (PNG marked_image)
     (''Ship something small today. practical > perfect.'' @ ''\<newline>\<newline>'' @ HASHTAGS))"
proof -
  let ?args = "[''ship'', ''daily'']"
  let ?ct = "''Ship something small today. practical > perfect.''"
  have 1: "post chat_down_env ?args = Inl (Net TimeoutError)"
    using post_all_or_nothing [of chat_down_env ?args "ReplyText []" "Net TimeoutError" "[]"
        generated_image "[]" 0 Network] chat_down [of "cap_prompt ?args" "''gpt-4o-mini''"]
    by (elim conjE) (erule mp)
  have 2: "post image_down_env ?args = Inl (Net (HTTPError 503))"
    using post_all_or_nothing [of image_down_env ?args "ReplyText []" "Net (HTTPError 503)" ?ct
        generated_image "[]" 0 Network]
      image_down_chat [of "cap_prompt ?args" "''gpt-4o-mini''"]
      image_down [of "img_prompt ?args" "''1024x1024''"]
    by (elim conjE) (erule mp, erule conjI)
  have s: "\<not> save_fails demo_env ([generated_image, marked_image] ! 1)"
    by (simp add: demo_env_def)
  have 3: "post demo_env ?args = Inr (ReplyPhoto (PNG ([generated_image, marked_image] ! 1))
     (?ct @ ''\<newline>\<newline>'' @ HASHTAGS))"
    using post_all_or_nothing [of demo_env ?args "ReplyText []" OSError ?ct generated_image
        "[generated_image, marked_image]" 1 Network]
      demo_chat [of "cap_prompt ?args" "''gpt-4o-mini''"]
      demo_generated [of "img_prompt ?args" "''1024x1024''"] demo_mark s
    by (elim conjE) (erule mp, intro conjI)
  have 4: "[generated_image, marked_image] ! 1 = marked_image"
    by simp
  from 1 2 3 s demo_chat demo_generated demo_mark show ?thesis
    unfolding 4 by (intro conjI)
qed

section \<open>The compositor\<close>

subsection \<open>The fallback mark\<close>

lemma draw_mark_result:
  assumes c: "getink env (h ! img) (BRAND_PRIMARY env) = None" and n: "img < length h"
  shows "\<exists>px. draw_mark env h img = Inr (h[img := (h ! img)\<lparr>pixels := px\<rparr>]) \<and>
     (let R = int (mark_radius (h ! img));
          cx = int (width (h ! img)) - R - 40;
          cy = int (height (h ! img)) - R - 40;
          disc = EllipseOn (pixels (h ! img)) (cx - R, cy - R, cx + R, cy + R) (BRAND_PRIMARY env)
      in px = disc \<or> (\<exists>pos. px = TextOn disc pos ''pd'' (BRAND_CREAM env)))"
  using c n unfolding draw_mark_def ellipse_def draw_pd_def Let_def
  by (auto split: sum.splits option.splits prod.splits)

lemma draw_mark_refused:
  "getink env (h ! img) (BRAND_PRIMARY env) = Some e \<Longrightarrow> draw_mark env h img = Inl e"
  by (simp add: draw_mark_def ellipse_def Let_def)

lemma fallback_reached:
  assumes "load_error env (h ! r) = None"
    and "LOGO_URL env = [] \<or> paste_logo env (h @ [h ! r]) (length h) = Inl e"
  shows "add_logo_or_mark env h r =
     and_then (draw_mark env (h @ [h ! r]) (length h)) (\<lambda>h3. Inr (h3, length h))"
  using assms by (auto simp: add_logo_or_mark_cases)

lemma fallback_drawn:
  assumes l: "load_error env (h ! r) = None"
    and f: "LOGO_URL env = [] \<or> paste_logo env (h @ [h ! r]) (length h) = Inl e"
    and c: "getink env (h ! r) (BRAND_PRIMARY env) = None"
  shows "\<exists>px. add_logo_or_mark env h r = Inr (h @ [(h ! r)\<lparr>pixels := px\<rparr>], length h) \<and>
     (let R = int (mark_radius (h ! r));
          cx = int (width (h ! r)) - R - 40;
          cy = int (height (h ! r)) - R - 40;
          disc = EllipseOn (pixels (h ! r)) (cx - R, cy - R, cx + R, cy + R) (BRAND_PRIMARY env)
      in px = disc \<or> (\<exists>pos. px = TextOn disc pos ''pd'' (BRAND_CREAM env)))"
proof -
  let ?h1 = "h @ [h ! r]"
  have n: "length h < length ?h1" by simp
  have i: "?h1 ! length h = h ! r" by simp
  from c have c1: "getink env (?h1 ! length h) (BRAND_PRIMARY env) = None"
    by simp
  from draw_mark_result [OF c1 n] obtain px where
    d: "draw_mark env ?h1 (length h) = Inr (?h1[length h := (?h1 ! length h)\<lparr>pixels := px\<rparr>])" and
    p: "(let R = int (mark_radius (?h1 ! length h));
          cx = int (width (?h1 ! length h)) - R - 40;
          cy = int (height (?h1 ! length h)) - R - 40;
          disc = EllipseOn (pixels (?h1 ! length h)) (cx - R, cy - R, cx + R, cy + R) (BRAND_PRIMARY env)
      in px = disc \<or> (\<exists>pos. px = TextOn disc pos ''pd'' (BRAND_CREAM env)))"
    by blast
  from d have "add_logo_or_mark env h r = Inr (h @ [(h ! r)\<lparr>pixels := px\<rparr>], length h)"
    by (simp add: fallback_reached [OF l f])
  with p show ?thesis unfolding i by blast
qed

lemma fallback_refused:
  assumes l: "load_error env (h ! r) = None"
    and f: "LOGO_URL env = [] \<or> paste_logo env (h @ [h ! r]) (length h) = Inl e"
    and c: "getink env (h ! r) (BRAND_PRIMARY env) = Some x"
  shows "add_logo_or_mark env h r = Inl x"
proof -
  from c have "getink env ((h @ [h ! r]) ! length h) (BRAND_PRIMARY env) = Some x"
    by simp
  from draw_mark_refused [OF this] show ?thesis
    by (simp add: fallback_reached [OF l f])
qed

lemma fetch_failed:
  "requests_get env (LOGO_URL env) 10 = None \<Longrightarrow> paste_logo env h img = Inl RequestException"
  by (simp add: paste_logo_def)

lemma open_failed:
  "requests_get env (LOGO_URL env) 10 = Some content \<Longrightarrow> Image_open env content = Inl why \<Longrightarrow>
     paste_logo env h img = Inl (decode_exception why)"
  by (simp add: paste_logo_def open_image_def)

text \<open>
  C1, as stated, fails: three calls of \<^verbatim>\<open>add_logo_or_mark\<close> stand outside every \<^verbatim>\<open>try\<close>, and
  what they raise leaves the function.  With no logo configured and \<^verbatim>\<open>BRAND_PRIMARY\<close> set
  to the empty string, \<^verbatim>\<open>draw.ellipse\<close> raises a \<open>ValueError\<close>; with the default colour and
  an image of mode \<^verbatim>\<open>PA\<close> it raises a \<open>TypeError\<close>; and for an image file that was opened
  but cannot be read to its end, \<^verbatim>\<open>img.copy()\<close> raises an \<open>OSError\<close>.
\<close>

theorem add_logo_or_mark_raises_counterexample:
  "LOGO_URL no_colour_env = [] \<and> BRAND_PRIMARY no_colour_env = [] \<and>
   add_logo_or_mark no_colour_env [generated_image] 0 = Inl ValueError \<and>
   LOGO_URL demo_env = [] \<and> BRAND_PRIMARY demo_env = ''#2F3435'' \<and>
   add_logo_or_mark demo_env [palette_image] 0 = Inl TypeError \<and>
   add_logo_or_mark truncated_env [demo_image] 0 = Inl OSError"
proof -
  have "add_logo_or_mark demo_env [palette_image] 0 = Inl TypeError"
    by (simp add: add_logo_or_mark_def img_copy_def load_error_def draw_mark_def ellipse_def
        getink_def demo_env_def palette_image_def)
  moreover have "add_logo_or_mark truncated_env [demo_image] 0 = Inl OSError"
    by (simp add: add_logo_or_mark_def img_copy_def load_error_def truncated_env_def
        demo_image_def)
  ultimately show ?thesis
    using no_colour_mark by (simp add: no_colour_env_def demo_env_def)
qed

text \<open>
  C1, amended.  \<^verbatim>\<open>add_logo_or_mark\<close> raises in two cases only: when the input image cannot
  be copied (the exception of the decoder that reads the file, an \<open>OSError\<close> when it is
  truncated), and when the fallback mark has to be drawn and \<^verbatim>\<open>draw.ellipse\<close> does not
  accept the primary colour for the image (its exception, a \<open>ValueError\<close> or a
  \<open>TypeError\<close>).  When the image can be copied and the colour is accepted, it returns an
  image for every store, every input image and every behaviour of the logo source.
  Every exception of the logo path (a failed fetch, a payload that is no image, or any
  later step) is swallowed, and the result is then, as with no logo configured, the input
  image with the fallback mark drawn on the copy: the disc of radius \<^verbatim>\<open>int(width * 0.12)\<close>
  in the primary colour, with the glyph on top when it can be drawn.
\<close>

theorem logo_failures_fall_back:
  "(load_error env (h ! r) = Some why \<longrightarrow> add_logo_or_mark env h r = Inl (decode_exception why)) \<and>
   (load_error env (h ! r) = None \<and> getink env (h ! r) (BRAND_PRIMARY env) = None \<longrightarrow>
      (\<exists>h' r'. add_logo_or_mark env h r = Inr (h', r')) \<and>
      (LOGO_URL env = [] \<or> requests_get env (LOGO_URL env) 10 = None \<or>
       (\<exists>content why. requests_get env (LOGO_URL env) 10 = Some content \<and>
          Image_open env content = Inl why) \<or>
       (\<exists>e. paste_logo env (h @ [h ! r]) (length h) = Inl e) \<longrightarrow>
         (\<exists>px. add_logo_or_mark env h r = Inr (h @ [(h ! r)\<lparr>pixels := px\<rparr>], length h) \<and>
            (let R = int (mark_radius (h ! r));
                 cx = int (width (h ! r)) - R - 40;
                 cy = int (height (h ! r)) - R - 40;
                 disc = EllipseOn (pixels (h ! r)) (cx - R, cy - R, cx + R, cy + R) (BRAND_PRIMARY env)
             in px = disc \<or> (\<exists>pos. px = TextOn disc pos ''pd'' (BRAND_CREAM env)))))) \<and>
   (load_error env (h ! r) = None \<and> getink env (h ! r) (BRAND_PRIMARY env) = Some x \<and>
      (LOGO_URL env = [] \<or> (\<exists>e. paste_logo env (h @ [h ! r]) (length h) = Inl e)) \<longrightarrow>
      add_logo_or_mark env h r = Inl x) \<and>
   (load_error env (h ! r) = None \<and> LOGO_URL env \<noteq> [] \<and>
      paste_logo env (h @ [h ! r]) (length h) = Inr h2 \<longrightarrow>
      add_logo_or_mark env h r = Inr (h2, length h)) \<and>
   (add_logo_or_mark env h r = Inl x \<longrightarrow>
      (\<exists>why. load_error env (h ! r) = Some why \<and> x = decode_exception why) \<or>
      (load_error env (h ! r) = None \<and> x \<in> {ValueError, TypeError} \<and>
       getink env (h ! r) (BRAND_PRIMARY env) = Some x \<and>
       (LOGO_URL env = [] \<or> (\<exists>e. paste_logo env (h @ [h ! r]) (length h) = Inl e))))"
proof (intro conjI impI)
  assume "load_error env (h ! r) = Some why"
  then show "add_logo_or_mark env h r = Inl (decode_exception why)"
    by (simp add: add_logo_or_mark_cases)
next
  assume a: "load_error env (h ! r) = None \<and> getink env (h ! r) (BRAND_PRIMARY env) = None"
  show "\<exists>h' r'. add_logo_or_mark env h r = Inr (h', r')"
  proof (cases "LOGO_URL env \<noteq> [] \<and> (\<exists>h2. paste_logo env (h @ [h ! r]) (length h) = Inr h2)")
    case True
    with a show ?thesis by (simp add: add_logo_or_mark_cases)
  next
    case False
    then have "LOGO_URL env = [] \<or> (\<exists>e. paste_logo env (h @ [h ! r]) (length h) = Inl e)"
      by (cases "paste_logo env (h @ [h ! r]) (length h)") auto
    with a fallback_drawn show ?thesis by blast
  qed
next
  assume a: "load_error env (h ! r) = None \<and> getink env (h ! r) (BRAND_PRIMARY env) = None"
  assume "LOGO_URL env = [] \<or> requests_get env (LOGO_URL env) 10 = None \<or>
       (\<exists>content why. requests_get env (LOGO_URL env) 10 = Some content \<and>
          Image_open env content = Inl why) \<or>
       (\<exists>e. paste_logo env (h @ [h ! r]) (length h) = Inl e)"
  then have "LOGO_URL env = [] \<or> (\<exists>e. paste_logo env (h @ [h ! r]) (length h) = Inl e)"
    using fetch_failed open_failed by blast
  with a fallback_drawn
  show "\<exists>px. add_logo_or_mark env h r = Inr (h @ [(h ! r)\<lparr>pixels := px\<rparr>], length h) \<and>
            (let R = int (mark_radius (h ! r));
                 cx = int (width (h ! r)) - R - 40;
                 cy = int (height (h ! r)) - R - 40;
                 disc = EllipseOn (pixels (h ! r)) (cx - R, cy - R, cx + R, cy + R) (BRAND_PRIMARY env)
             in px = disc \<or> (\<exists>pos. px = TextOn disc pos ''pd'' (BRAND_CREAM env)))"
    by blast
next
  assume "load_error env (h ! r) = None \<and> getink env (h ! r) (BRAND_PRIMARY env) = Some x \<and>
      (LOGO_URL env = [] \<or> (\<exists>e. paste_logo env (h @ [h ! r]) (length h) = Inl e))"
  with fallback_refused show "add_logo_or_mark env h r = Inl x"
    by blast
next
  assume "load_error env (h ! r) = None \<and> LOGO_URL env \<noteq> [] \<and>
      paste_logo env (h @ [h ! r]) (length h) = Inr h2"
  then show "add_logo_or_mark env h r = Inr (h2, length h)"
    by (simp add: add_logo_or_mark_cases)
next
  assume a: "add_logo_or_mark env h r = Inl x"
  show "(\<exists>why. load_error env (h ! r) = Some why \<and> x = decode_exception why) \<or>
      (load_error env (h ! r) = None \<and> x \<in> {ValueError, TypeError} \<and>
       getink env (h ! r) (BRAND_PRIMARY env) = Some x \<and>
       (LOGO_URL env = [] \<or> (\<exists>e. paste_logo env (h @ [h ! r]) (length h) = Inl e)))"
  proof (cases "load_error env (h ! r)")
    case (Some why)
    with a show ?thesis by (simp add: add_logo_or_mark_cases)
  next
    case None
    from add_logo_or_mark_Inl [OF a] None have x: "x \<in> {ValueError, TypeError}"
      by auto
    from a None have f: "LOGO_URL env = [] \<or> (\<exists>e. paste_logo env (h @ [h ! r]) (length h) = Inl e)"
      by (cases "paste_logo env (h @ [h ! r]) (length h)")
        (auto simp: add_logo_or_mark_cases split: if_splits)
    have "getink env (h ! r) (BRAND_PRIMARY env) = Some x"
    proof (cases "getink env (h ! r) (BRAND_PRIMARY env)")
      case c: None
      from f fallback_drawn [OF None _ c] a show ?thesis by auto
    next
      case c: (Some y)
      from f fallback_refused [OF None _ c] a show ?thesis by (auto simp: c)
    qed
    with None x f show ?thesis by blast
  qed
qed

lemma unreachable_mark:
  "add_logo_or_mark unreachable_env [generated_image] 0 = Inr ([generated_image, marked_image], 1)"
  by (simp add: add_logo_or_mark_def img_copy_def load_error_def paste_logo_def draw_mark_def
      ellipse_def draw_pd_def getink_def radius_1024 unreachable_env_def logo_env_def demo_env_def
      generated_image_def marked_image_def)

lemma undecodable_mark:
  "add_logo_or_mark undecodable_env [generated_image] 0 = Inr ([generated_image, marked_image], 1)"
  by (simp add: add_logo_or_mark_def img_copy_def load_error_def paste_logo_def open_image_def
      draw_mark_def ellipse_def draw_pd_def getink_def radius_1024 undecodable_env_def
      logo_env_def demo_env_def generated_image_def marked_image_def)

theorem logo_failures_fall_back_witness:
  "load_error unreachable_env ([generated_image] ! 0) = None \<and>
   getink unreachable_env ([generated_image] ! 0) (BRAND_PRIMARY unreachable_env) = None \<and>
   LOGO_URL unreachable_env = ''https://example.org/logo.png'' \<and>
   requests_get unreachable_env (LOGO_URL unreachable_env) 10 = None \<and>
   add_logo_or_mark unreachable_env [generated_image] 0 = Inr ([generated_image, marked_image], 1) \<and>
   requests_get undecodable_env (LOGO_URL undecodable_env) 10 = Some ''<html>404</html>'' \<and>
   Image_open undecodable_env ''<html>404</html>'' = Inl NotAnImage \<and>
   add_logo_or_mark undecodable_env [generated_image] 0 = Inr ([generated_image, marked_image], 1) \<and>
   mark_radius generated_image = 122 \<and>
   pixels marked_image =
     TextOn (EllipseOn (pixels generated_image) (862 - 122, 862 - 122, 862 + 122, 862 + 122)
               (BRAND_PRIMARY unreachable_env))
       (856, 1713 / 2) ''pd'' (BRAND_CREAM unreachable_env)"
proof -
  have l: "load_error unreachable_env ([generated_image] ! 0) = None"
    by (simp add: load_error_def generated_image_def)
  have c: "getink unreachable_env ([generated_image] ! 0) (BRAND_PRIMARY unreachable_env) = None"
    by (simp add: getink_def unreachable_env_def logo_env_def demo_env_def generated_image_def)
  have u: "LOGO_URL unreachable_env = ''https://example.org/logo.png''"
    and g1: "requests_get unreachable_env (LOGO_URL unreachable_env) 10 = None"
    by (simp_all add: unreachable_env_def logo_env_def)
  have g2: "requests_get undecodable_env (LOGO_URL undecodable_env) 10 = Some ''<html>404</html>''"
    and o2: "Image_open undecodable_env ''<html>404</html>'' = Inl NotAnImage"
    by (simp_all add: undecodable_env_def logo_env_def demo_env_def)
  have r: "mark_radius generated_image = 122"
    by (rule radius_1024) (simp add: generated_image_def)
  from logo_failures_fall_back [of unreachable_env "[generated_image]" 0] l c g1
  obtain px where
    res: "add_logo_or_mark unreachable_env [generated_image] 0 =
       Inr ([generated_image] @ [([generated_image] ! 0)\<lparr>pixels := px\<rparr>], length [generated_image])"
    and shape: "(let R = int (mark_radius ([generated_image] ! 0));
              cx = int (width ([generated_image] ! 0)) - R - 40;
              cy = int (height ([generated_image] ! 0)) - R - 40;
              disc = EllipseOn (pixels ([generated_image] ! 0)) (cx - R, cy - R, cx + R, cy + R)
                       (BRAND_PRIMARY unreachable_env)
          in px = disc \<or> (\<exists>pos. px = TextOn disc pos ''pd'' (BRAND_CREAM unreachable_env)))"
    by blast
  from res unreachable_mark have "marked_image = generated_image\<lparr>pixels := px\<rparr>"
    by simp
  from arg_cong [OF this, of pixels] have m: "pixels marked_image = px"
    by simp
  have w: "width generated_image = 1024" and h: "height generated_image = 1024"
    by (simp_all add: generated_image_def)
  from shape have
    "px = EllipseOn (pixels generated_image) (862 - 122, 862 - 122, 862 + 122, 862 + 122)
         (BRAND_PRIMARY unreachable_env) \<or>
     (\<exists>pos. px =
       TextOn (EllipseOn (pixels generated_image) (862 - 122, 862 - 122, 862 + 122, 862 + 122)
                 (BRAND_PRIMARY unreachable_env)) pos ''pd'' (BRAND_CREAM unreachable_env))"
    by (simp add: Let_def r w h)
  then have "pixels marked_image =
       EllipseOn (pixels generated_image) (862 - 122, 862 - 122, 862 + 122, 862 + 122)
         (BRAND_PRIMARY unreachable_env) \<or>
     (\<exists>pos. pixels marked_image =
       TextOn (EllipseOn (pixels generated_image) (862 - 122, 862 - 122, 862 + 122, 862 + 122)
                 (BRAND_PRIMARY unreachable_env)) pos ''pd'' (BRAND_CREAM unreachable_env))"
    by (simp only: m)
  then have "pixels marked_image =
     TextOn (EllipseOn (pixels generated_image) (862 - 122, 862 - 122, 862 + 122, 862 + 122)
               (BRAND_PRIMARY unreachable_env))
       (856, 1713 / 2) ''pd'' (BRAND_CREAM unreachable_env)"
    by (simp add: marked_image_def unreachable_env_def logo_env_def demo_env_def)
  with l c u g1 g2 o2 r unreachable_mark undecodable_mark show ?thesis
    by (intro conjI)
qed

text \<open>
  C2, as stated, fails: for a 1024 x 1024 image with no logo configured the radius is
  \<^verbatim>\<open>int(1024 * 0.12)\<close> = 122, not 123, since \<^verbatim>\<open>int\<close> truncates 122.88; the centre is
  (862, 862) and the disc is drawn in the box (740, 740, 984, 984).
\<close>

theorem fallback_mark_1024_counterexample:
  "LOGO_URL demo_env = [] \<and> width generated_image = 1024 \<and> height generated_image = 1024 \<and>
   add_logo_or_mark demo_env [generated_image] 0 = Inr ([generated_image, marked_image], 1) \<and>
   pixels marked_image =
     TextOn (EllipseOn (pixels generated_image) (862 - 122, 862 - 122, 862 + 122, 862 + 122) ''#2F3435'')
       (856, 1713 / 2) ''pd'' ''#F4EFE2'' \<and>
   mark_radius generated_image = 122 \<and> mark_radius generated_image \<noteq> 123 \<and>
   ((862::int) - 122, (862::int) - 122, (862::int) + 122, (862::int) + 122) \<noteq>
     (861 - 123, 861 - 123, 861 + 123, 861 + 123)"
proof -
  have "LOGO_URL demo_env = []" by (simp add: demo_env_def)
  moreover have "mark_radius generated_image = 122"
    by (rule radius_1024) (simp add: generated_image_def)
  ultimately show ?thesis
    using demo_mark by (simp add: generated_image_def marked_image_def)
qed

text \<open>
  C2, amended.  With no logo configured, the fallback mark is a filled disc of radius
  \<open>R\<close> = 12 * width div 100 (12% of the width, rounded down) centred at
  (width - \<open>R\<close> - 40, height - \<open>R\<close> - 40), in the primary colour, with the glyph on top
  when it can be drawn; for a 1024 x 1024 image \<open>R\<close> = 122 and the centre is (862, 862).
  Widths are below 2^31, as every image of the library is.  The mark is drawn on every
  image that can be copied and drawn on; on the others the call ends in the exception of
  \<^verbatim>\<open>copy\<close> or of \<^verbatim>\<open>draw.ellipse\<close>, which the theorem names.
\<close>

theorem fallback_mark_geometry:
  assumes "LOGO_URL env = []" and "color_ok env (BRAND_PRIMARY env)" and "width (h ! r) < 2 ^ 31"
  shows "case load_error env (h ! r) of
       Some why \<Rightarrow> add_logo_or_mark env h r = Inl (decode_exception why)
     | None \<Rightarrow>
        (case ink_refused env (h ! r) (BRAND_PRIMARY env) of
           Some why \<Rightarrow> add_logo_or_mark env h r = Inl (ink_exception why)
         | None \<Rightarrow>
             \<exists>px. add_logo_or_mark env h r = Inr (h @ [(h ! r)\<lparr>pixels := px\<rparr>], length h) \<and>
               (let R = int (12 * width (h ! r) div 100);
                    cx = int (width (h ! r)) - R - 40;
                    cy = int (height (h ! r)) - R - 40;
                    disc = EllipseOn (pixels (h ! r)) (cx - R, cy - R, cx + R, cy + R) (BRAND_PRIMARY env)
                in (px = disc \<or> (\<exists>pos. px = TextOn disc pos ''pd'' (BRAND_CREAM env))) \<and>
                   (width (h ! r) = 1024 \<and> height (h ! r) = 1024 \<longrightarrow>
                      R = 122 \<and> cx = 862 \<and> cy = 862)))"
proof (cases "load_error env (h ! r)")
  case (Some why)
  then show ?thesis by (simp add: add_logo_or_mark_cases)
next
  case l: None
  have f: "LOGO_URL env = [] \<or> paste_logo env (h @ [h ! r]) (length h) = Inl OSError"
    using assms(1) by simp
  show ?thesis
  proof (cases "ink_refused env (h ! r) (BRAND_PRIMARY env)")
    case (Some why)
    with assms(2) have "getink env (h ! r) (BRAND_PRIMARY env) = Some (ink_exception why)"
      by (simp add: getink_def)
    from fallback_refused [OF l f this] l Some show ?thesis by simp
  next
    case None
    with assms(2) have "getink env (h ! r) (BRAND_PRIMARY env) = None"
      by (simp add: getink_def)
    from fallback_drawn [OF l f this] obtain px where
      a: "add_logo_or_mark env h r = Inr (h @ [(h ! r)\<lparr>pixels := px\<rparr>], length h)" and
      p: "(let R = int (mark_radius (h ! r));
            cx = int (width (h ! r)) - R - 40;
            cy = int (height (h ! r)) - R - 40;
            disc = EllipseOn (pixels (h ! r)) (cx - R, cy - R, cx + R, cy + R) (BRAND_PRIMARY env)
        in px = disc \<or> (\<exists>pos. px = TextOn disc pos ''pd'' (BRAND_CREAM env)))"
      by blast
    from p have "(let R = int (12 * width (h ! r) div 100);
            cx = int (width (h ! r)) - R - 40;
            cy = int (height (h ! r)) - R - 40;
            disc = EllipseOn (pixels (h ! r)) (cx - R, cy - R, cx + R, cy + R) (BRAND_PRIMARY env)
        in (px = disc \<or> (\<exists>pos. px = TextOn disc pos ''pd'' (BRAND_CREAM env))) \<and>
           (width (h ! r) = 1024 \<and> height (h ! r) = 1024 \<longrightarrow> R = 122 \<and> cx = 862 \<and> cy = 862))"
      unfolding mark_radius_floor [OF assms(3)] by (auto simp: Let_def)
    with a l None show ?thesis by auto
  qed
qed

theorem fallback_mark_geometry_witness:
  "LOGO_URL demo_env = [] \<and> color_ok demo_env (BRAND_PRIMARY demo_env) \<and>
   width ([generated_image] ! 0) < 2 ^ 31 \<and>
   load_error demo_env ([generated_image] ! 0) = None \<and>
   ink_refused demo_env ([generated_image] ! 0) (BRAND_PRIMARY demo_env) = None \<and>
   add_logo_or_mark demo_env [generated_image] 0 = Inr ([generated_image, marked_image], 1) \<and>
   pixels marked_image =
     TextOn (EllipseOn (pixels generated_image) (862 - 122, 862 - 122, 862 + 122, 862 + 122) ''#2F3435'')
       (856, 1713 / 2) ''pd'' ''#F4EFE2'' \<and>
   int (12 * width generated_image div 100) = 122"
proof -
  have a: "LOGO_URL demo_env = []" and b: "color_ok demo_env (BRAND_PRIMARY demo_env)"
    and c: "width ([generated_image] ! 0) < 2 ^ 31"
    and l: "load_error demo_env ([generated_image] ! 0) = None"
    and i: "ink_refused demo_env ([generated_image] ! 0) (BRAND_PRIMARY demo_env) = None"
    by (simp_all add: demo_env_def generated_image_def load_error_def)
  from fallback_mark_geometry [OF a b c] l i have "int (12 * width generated_image div 100) = 122"
    by (auto simp: Let_def generated_image_def)
  with a b c l i demo_mark show ?thesis
    by (simp add: marked_image_def generated_image_def)
qed

subsection \<open>The logo\<close>






subsection \<open>Mode and store\<close>

text \<open>
  C5.  The image a \<^verbatim>\<open>/post\<close> run sends is RGBA on either path of the compositor:
  \<^verbatim>\<open>openai_image\<close> returns an RGBA image, and \<^verbatim>\<open>add_logo_or_mark\<close> returns an image of the
  mode of its input, whether the logo was pasted or the fallback mark drawn.
\<close>

theorem image_step_rgba:
  "(post env args = Inr (ReplyPhoto (PNG img) cap) \<longrightarrow> mode img = ''RGBA'') \<and>
   (openai_image env p sz = Inr g \<longrightarrow> mode g = ''RGBA'') \<and>
   (add_logo_or_mark env h r = Inr (h', r') \<longrightarrow> mode (h' ! r') = mode (h ! r))"
proof (intro conjI impI)
  assume "post env args = Inr (ReplyPhoto (PNG img) cap)"
  from post_Inr [OF this] obtain g h' r' where
    g: "openai_image env (img_prompt args) ''1024x1024'' = Inr g" and
    a: "add_logo_or_mark env [g] 0 = Inr (h', r')" and i: "img = h' ! r'"
    by auto
  from add_logo_or_mark_shape [OF a] openai_image_mode [OF g] i
  show "mode img = ''RGBA''" by simp
qed (auto dest: openai_image_mode add_logo_or_mark_shape)

theorem image_step_rgba_witness:
  "openai_image demo_env (img_prompt []) ''1024x1024'' = Inr generated_image \<and>
   add_logo_or_mark demo_env [generated_image] 0 = Inr ([generated_image, marked_image], 1) \<and>
   add_logo_or_mark logo_env [generated_image] 0 = Inr ([generated_image, pasted_image], 1) \<and>
   mode generated_image = ''RGBA'' \<and> mode marked_image = ''RGBA'' \<and> mode pasted_image = ''RGBA''"
proof -
  have g: "mode generated_image = ''RGBA''"
    using image_step_rgba [of demo_env "[]" generated_image "[]" "img_prompt []" "''1024x1024''"
        generated_image "[]" 0 "[]" 0] demo_generated
    by blast
  have "mode ([generated_image, marked_image] ! 1) = mode ([generated_image] ! 0)"
    using image_step_rgba [of demo_env "[]" generated_image "[]" "[]" "[]" generated_image
        "[generated_image]" 0 "[generated_image, marked_image]" 1] demo_mark
    by blast
  moreover have "mode ([generated_image, pasted_image] ! 1) = mode ([generated_image] ! 0)"
    using image_step_rgba [of logo_env "[]" generated_image "[]" "[]" "[]" generated_image
        "[generated_image]" 0 "[generated_image, pasted_image]" 1] demo_paste
    by blast
  ultimately show ?thesis
    using g demo_generated demo_mark demo_paste by simp
qed

text \<open>
  C10.  \<^verbatim>\<open>add_logo_or_mark\<close> works on a copy: when it returns, every object that was in
  the store before the call is unchanged, the caller's image among them, and the result
  is a new object.  This holds on the logo path and on the fallback path.
\<close>

theorem add_logo_or_mark_keeps_input:
  assumes "add_logo_or_mark env h r = Inr (h', r')"
  shows "take (length h) h' = h \<and> r' = length h \<and> (r < length h \<longrightarrow> h' ! r = h ! r \<and> r' \<noteq> r)"
  using add_logo_or_mark_frame [OF assms] by (auto simp: nth_append)

theorem add_logo_or_mark_keeps_input_witness:
  "add_logo_or_mark demo_env [generated_image] 0 = Inr ([generated_image, marked_image], 1) \<and>
   add_logo_or_mark logo_env [generated_image] 0 = Inr ([generated_image, pasted_image], 1) \<and>
   take (length [generated_image]) [generated_image, marked_image] = [generated_image] \<and>
   take (length [generated_image]) [generated_image, pasted_image] = [generated_image] \<and>
   [generated_image, marked_image] ! 0 = [generated_image] ! 0 \<and>
   [generated_image, pasted_image] ! 0 = [generated_image] ! 0"
  using add_logo_or_mark_keeps_input [OF demo_mark] add_logo_or_mark_keeps_input [OF demo_paste]
    demo_mark demo_paste
  by simp

end
